theory Spec2Isabelle
  imports Complex_Main "HOL-Library.AList" "HOL-Library.Char_ord"
begin

section \<open>JavaScript strings\<close>

text \<open>
  A string is a list of characters; a character is one code unit, restricted to the 256
  code units of Latin-1 (the type \<^typ>\<open>char\<close>). \<open>length\<close> is then the
  \<open>.length\<close> of the source. White space, as \<open>trim()\<close> and \<open>\s\<close> see it
  inside this range: tab, line feed, vertical tab, form feed, carriage return, space and
  the no-break space.
\<close>

definition isWhiteSpace :: "char \<Rightarrow> bool" where
  "isWhiteSpace c =
     (c \<in> set [CHR 0x09, CHR 0x0A, CHR 0x0B, CHR 0x0C, CHR 0x0D, CHR 0x20, CHR 0xA0])"

text \<open>Code units are ordered by their numbers (the order of \<open>HOL-Library.Char_ord\<close>).\<close>

definition inRange :: "char \<Rightarrow> char \<Rightarrow> char \<Rightarrow> bool" where
  "inRange a b c = (a \<le> c \<and> c \<le> b)"

definition isDigit :: "char \<Rightarrow> bool" where
  "isDigit c = inRange CHR ''0'' CHR ''9'' c"

definition isWordChar :: "char \<Rightarrow> bool" where
  "isWordChar c =
     (inRange CHR ''a'' CHR ''z'' c \<or> inRange CHR ''A'' CHR ''Z'' c \<or> inRange CHR ''0'' CHR ''9'' c
      \<or> c = CHR ''_'')"

definition isLineTerminator :: "char \<Rightarrow> bool" where
  "isLineTerminator c = (c \<in> set [CHR 0x0A, CHR 0x0D])"

text \<open>
  \<open>toLowerCase\<close> and \<open>toUpperCase\<close> on one code unit of Latin-1: the ASCII letters
  and the accented letters \<open>0xC0..0xDE\<close> / \<open>0xE0..0xFE\<close> (without the signs
  \<open>0xD7\<close> and \<open>0xF7\<close>) change case, and the two cases of a letter differ in the
  bit of value 32 only. The upper-case forms of \<open>0xB5\<close>, \<open>0xDF\<close> and \<open>0xFF\<close>
  lie outside Latin-1 or are two letters; the regular expression engine of the language
  leaves those three alone, and so does \<open>toUpperCase_char\<close>, which is used for the
  flag \<open>i\<close> only.
\<close>

definition withBit32 :: "bool \<Rightarrow> char \<Rightarrow> char" where
  "withBit32 b c = (case c of Char b0 b1 b2 b3 b4 b5 b6 b7 \<Rightarrow> Char b0 b1 b2 b3 b4 b b6 b7)"

definition toLowerCase_char :: "char \<Rightarrow> char" where
  "toLowerCase_char c =
     (if inRange CHR ''A'' CHR ''Z'' c then withBit32 True c
      else if inRange (CHR 0xC0) (CHR 0xDE) c then (if c = CHR 0xD7 then c else withBit32 True c)
      else c)"

definition toUpperCase_char :: "char \<Rightarrow> char" where
  "toUpperCase_char c =
     (if inRange CHR ''a'' CHR ''z'' c then withBit32 False c
      else if inRange (CHR 0xE0) (CHR 0xFE) c then (if c = CHR 0xF7 then c else withBit32 False c)
      else c)"

definition toLowerCase :: "string \<Rightarrow> string" where
  "toLowerCase s = map toLowerCase_char s"

definition trim :: "string \<Rightarrow> string" where
  "trim s = rev (dropWhile isWhiteSpace (rev (dropWhile isWhiteSpace s)))"

fun startsWith :: "string \<Rightarrow> string \<Rightarrow> bool" where
  "startsWith s [] = True"
| "startsWith [] (p # ps) = False"
| "startsWith (c # cs) (p # ps) = (c = p \<and> startsWith cs ps)"

fun str_includes :: "string \<Rightarrow> string \<Rightarrow> bool" where
  "str_includes [] p = (p = [])"
| "str_includes (c # cs) p = (startsWith (c # cs) p \<or> str_includes cs p)"

text \<open>A value used as a condition: a string is truthy when it is not empty.\<close>

definition truthy_str :: "string option \<Rightarrow> bool" where
  "truthy_str v = (case v of None \<Rightarrow> False | Some s \<Rightarrow> (case s of [] \<Rightarrow> False | _ # _ \<Rightarrow> True))"

section \<open>JSON values\<close>

text \<open>
  The values \<open>JSON.parse\<close> produces. A number is kept as the exact value of its
  decimal text (the rounding to floating point is not modelled); an object is the list of
  its keys and values in the order of its keys.
\<close>

datatype json =
    JNull
  | JBool bool
  | JNum rat
  | JStr string
  | JArr "json list"
  | JObj "(string \<times> json) list"

text \<open>A value used as a condition, and the read of a property of a value.\<close>

fun truthy :: "json \<Rightarrow> bool" where
  "truthy JNull = False"
| "truthy (JBool b) = b"
| "truthy (JNum x) = (if x = 0 then False else True)"
| "truthy (JStr s) = (case s of [] \<Rightarrow> False | _ # _ \<Rightarrow> True)"
| "truthy (JArr xs) = True"
| "truthy (JObj kvs) = True"

fun property :: "json \<Rightarrow> string \<Rightarrow> json option" where
  "property (JObj kvs) k = map_of kvs k"
| "property v k = None"

section \<open>JSON.parse\<close>

text \<open>
  A parser for the JSON grammar: white space is space, tab, line feed and carriage return;
  a string may not hold a raw control character; a number has no leading zero. An escape
  \<open>\uXXXX\<close> above \<open>00FF\<close> denotes a code unit outside Latin-1 and is
  outside the model (the parser gives \<open>None\<close>). \<open>None\<close> is the
  \<open>SyntaxError\<close> of the source.
\<close>

definition isJsonSpace :: "char \<Rightarrow> bool" where
  "isJsonSpace c = (c \<in> set [CHR 0x20, CHR 0x09, CHR 0x0A, CHR 0x0D])"

definition skipWs :: "string \<Rightarrow> string" where
  "skipWs s = dropWhile isJsonSpace s"

definition hexVal :: "char \<Rightarrow> nat option" where
  "hexVal c = map_of (zip ''0123456789abcdefABCDEF''
                           [0, 1, 2, 3, 4, 5, 6, 7, 8, 9, 10, 11, 12, 13, 14, 15, 10, 11, 12, 13, 14, 15]) c"

definition simpleEscape :: "char \<Rightarrow> char option" where
  "simpleEscape e =
     map_of [(CHR 0x22, CHR 0x22), (CHR 0x5C, CHR 0x5C), (CHR ''/'', CHR ''/''), (CHR ''b'', CHR 0x08),
             (CHR ''f'', CHR 0x0C), (CHR ''n'', CHR 0x0A), (CHR ''r'', CHR 0x0D), (CHR ''t'', CHR 0x09)] e"

text \<open>The characters of a string after its opening quote, up to the closing quote.\<close>

fun parseChars :: "string \<Rightarrow> string \<Rightarrow> (string \<times> string) option" where
  "parseChars acc [] = None"
| "parseChars acc (c # r) =
     (if c = CHR 0x22 then Some (acc, r)
      else if c = CHR 0x5C then
        (case r of
           [] \<Rightarrow> None
         | e # r1 \<Rightarrow>
             if e = CHR ''u'' then
               (case r1 of
                  a # b # x # y # r2 \<Rightarrow>
                    (case (hexVal a, hexVal b, hexVal x, hexVal y) of
                       (Some 0, Some 0, Some h, Some l) \<Rightarrow> parseChars (acc @ [char_of (16 * h + l)]) r2
                     | _ \<Rightarrow> None)
                | _ \<Rightarrow> None)
             else (case simpleEscape e of None \<Rightarrow> None | Some d \<Rightarrow> parseChars (acc @ [d]) r1))
      else if c < CHR 0x20 then None
      else parseChars (acc @ [c]) r)"

definition digitsValue :: "string \<Rightarrow> nat" where
  "digitsValue ds = foldl (\<lambda>n d. 10 * n + (of_char d - 48)) 0 ds"

text \<open>
  A number: \<open>-? (0 | [1-9][0-9]*) (.[0-9]+)? ([eE][+-]?[0-9]+)?\<close>, with its exact
  value.
\<close>

definition parseNumber :: "string \<Rightarrow> (rat \<times> string) option" where
  "parseNumber s =
     (let neg = (case s of [] \<Rightarrow> False | c # _ \<Rightarrow> c = CHR ''-'');
          s1 = (if neg then tl s else s);
          ip = (case s1 of [] \<Rightarrow> [] | c # _ \<Rightarrow> if c = CHR ''0'' then ''0'' else takeWhile isDigit s1);
          s2 = drop (length ip) s1
      in if ip = [] then None
         else
           let hasFrac = (case s2 of [] \<Rightarrow> False | c # _ \<Rightarrow> c = CHR ''.'');
               fp = (if hasFrac then takeWhile isDigit (tl s2) else []);
               s3 = (if hasFrac then drop (length fp) (tl s2) else s2)
           in if hasFrac \<and> fp = [] then None
              else
                let hasExp = (case s3 of [] \<Rightarrow> False | c # _ \<Rightarrow> c = CHR ''e'' \<or> c = CHR ''E'');
                    s4 = (if hasExp then tl s3 else s3);
                    expNeg = (case s4 of [] \<Rightarrow> False | c # _ \<Rightarrow> hasExp \<and> c = CHR ''-'');
                    expSign = (case s4 of [] \<Rightarrow> False
                               | c # _ \<Rightarrow> hasExp \<and> (c = CHR ''-'' \<or> c = CHR ''+''));
                    s5 = (if expSign then tl s4 else s4);
                    ep = (if hasExp then takeWhile isDigit s5 else []);
                    s6 = drop (length ep) s5
                in if hasExp \<and> ep = [] then None
                   else
                     let mantissa = of_nat (digitsValue ip) + of_nat (digitsValue fp) / 10 ^ length fp;
                         scaled = (if expNeg then mantissa / 10 ^ digitsValue ep
                                   else mantissa * 10 ^ digitsValue ep)
                     in Some (if neg then - scaled else scaled, s6))"

text \<open>
  Values, the elements of an array after its \<open>[\<close> and the members of an object
  after its \<open>{\<close>. The first argument bounds the number of nested calls; one more
  than the length of the text is enough, since every call consumes a character before it
  calls again. A repeated key keeps its first place and takes the last value.
\<close>

fun parseValue :: "nat \<Rightarrow> string \<Rightarrow> (json \<times> string) option"
  and parseElements :: "nat \<Rightarrow> json list \<Rightarrow> string \<Rightarrow> (json \<times> string) option"
  and parseMembers :: "nat \<Rightarrow> (string \<times> json) list \<Rightarrow> string \<Rightarrow> (json \<times> string) option" where
  "parseValue 0 s = None"
| "parseValue (Suc n) s =
     (case s of
        [] \<Rightarrow> None
      | c # r \<Rightarrow>
          if c = CHR ''{'' then
            (case skipWs r of
               [] \<Rightarrow> None
             | d # r' \<Rightarrow> if d = CHR ''}'' then Some (JObj [], r') else parseMembers n [] (d # r'))
          else if c = CHR ''['' then
            (case skipWs r of
               [] \<Rightarrow> None
             | d # r' \<Rightarrow> if d = CHR '']'' then Some (JArr [], r') else parseElements n [] (d # r'))
          else if c = CHR 0x22 then map_option (\<lambda>(str, r'). (JStr str, r')) (parseChars [] r)
          else if startsWith s ''true'' then Some (JBool True, drop 4 s)
          else if startsWith s ''false'' then Some (JBool False, drop 5 s)
          else if startsWith s ''null'' then Some (JNull, drop 4 s)
          else map_option (\<lambda>(x, r'). (JNum x, r')) (parseNumber s))"
| "parseElements 0 acc s = None"
| "parseElements (Suc n) acc s =
     (case parseValue n s of
        None \<Rightarrow> None
      | Some (v, r) \<Rightarrow>
          (case skipWs r of
             [] \<Rightarrow> None
           | d # r' \<Rightarrow>
               if d = CHR '','' then parseElements n (acc @ [v]) (skipWs r')
               else if d = CHR '']'' then Some (JArr (acc @ [v]), r')
               else None))"
| "parseMembers 0 acc s = None"
| "parseMembers (Suc n) acc s =
     (case s of
        [] \<Rightarrow> None
      | q # r \<Rightarrow>
          if q = CHR 0x22 then
            (case parseChars [] r of
               None \<Rightarrow> None
             | Some (k, r1) \<Rightarrow>
                 (case skipWs r1 of
                    [] \<Rightarrow> None
                  | colon # r2 \<Rightarrow>
                      if colon = CHR '':'' then
                        (case parseValue n (skipWs r2) of
                           None \<Rightarrow> None
                         | Some (v, r3) \<Rightarrow>
                             (case skipWs r3 of
                                [] \<Rightarrow> None
                              | d # r4 \<Rightarrow>
                                  if d = CHR '','' then parseMembers n (AList.update k v acc) (skipWs r4)
                                  else if d = CHR ''}'' then Some (JObj (AList.update k v acc), r4)
                                  else None))
                      else None))
          else None)"

definition JSON_parse :: "string \<Rightarrow> json option" where
  "JSON_parse s =
     (case parseValue (Suc (length s)) (skipWs s) of
        None \<Rightarrow> None
      | Some (v, r) \<Rightarrow> (case skipWs r of [] \<Rightarrow> Some v | _ # _ \<Rightarrow> None))"

section \<open>Regular expressions\<close>

text \<open>
  The regular expressions of the sources, as data, with a backtracking matcher that tries
  the alternatives in the order the language prescribes: the left branch of \<open>|\<close>
  first, a greedy \<open>*\<close> the longest run first, a lazy \<open>*?\<close> the shortest first.
  \<open>Grp\<close> is a capturing group; the sources read the text of the first group only, and
  only of a group that is not under a quantifier.
\<close>

datatype cset = Chr char | Rng char char | Dgt | Wrd | Spc | NSpc

datatype rx =
    Eps
  | Cls "cset list"
  | NCls "cset list"
  | Dot
  | Bol
  | Eol
  | WordB
  | Seq rx rx
  | Alt rx rx
  | Star rx
  | LazyStar rx
  | Grp rx

text \<open>
  Membership of a code unit in a class item; \<open>ic\<close> is the flag \<open>i\<close>, under which
  two code units match when their upper-case forms agree.
\<close>

fun cset_has :: "bool \<Rightarrow> cset \<Rightarrow> char \<Rightarrow> bool" where
  "cset_has ic (Chr a) c = (if ic then toUpperCase_char a = toUpperCase_char c else a = c)"
| "cset_has ic (Rng a b) c =
     (if ic then inRange a b c \<or> inRange a b (toUpperCase_char c) \<or> inRange a b (toLowerCase_char c)
      else inRange a b c)"
| "cset_has ic Dgt c = isDigit c"
| "cset_has ic Wrd c = isWordChar c"
| "cset_has ic Spc c = isWhiteSpace c"
| "cset_has ic NSpc c = (if isWhiteSpace c then False else True)"

text \<open>
  A position in the subject: the code unit before it (\<open>None\<close> at the start), the
  rest of the subject, and the text captured by the group so far.
\<close>

type_synonym rxpos = "char option \<times> string \<times> string option"

definition remaining :: "rxpos \<Rightarrow> string" where
  "remaining st = fst (snd st)"

definition atWordBoundary :: "rxpos \<Rightarrow> bool" where
  "atWordBoundary st =
     (let a = (case fst st of None \<Rightarrow> False | Some c \<Rightarrow> isWordChar c);
          b = (case remaining st of [] \<Rightarrow> False | c # _ \<Rightarrow> isWordChar c)
      in a \<noteq> b)"

definition step1 :: "(char \<Rightarrow> bool) \<Rightarrow> rxpos \<Rightarrow> rxpos list" where
  "step1 P st =
     (case remaining st of [] \<Rightarrow> [] | c # cs \<Rightarrow> if P c then [(Some c, cs, snd (snd st))] else [])"

text \<open>
  \<open>ms ic r st\<close>: the positions at which a match of \<open>r\<close> begun at \<open>st\<close> can
  end, in the order backtracking tries them. An iteration of a star that consumes nothing
  is rejected, as the language does.
\<close>

function ms :: "bool \<Rightarrow> rx \<Rightarrow> rxpos \<Rightarrow> rxpos list" where
  "ms ic Eps st = [st]"
| "ms ic (Cls cs) st = step1 (\<lambda>c. list_ex (\<lambda>k. cset_has ic k c) cs) st"
| "ms ic (NCls cs) st = step1 (\<lambda>c. if list_ex (\<lambda>k. cset_has ic k c) cs then False else True) st"
| "ms ic Dot st = step1 (\<lambda>c. if isLineTerminator c then False else True) st"
| "ms ic Bol st = (if fst st = None then [st] else [])"
| "ms ic Eol st = (if remaining st = [] then [st] else [])"
| "ms ic WordB st = (if atWordBoundary st then [st] else [])"
| "ms ic (Seq a b) st = concat (map (ms ic b) (ms ic a st))"
| "ms ic (Alt a b) st = ms ic a st @ ms ic b st"
| "ms ic (Star a) st =
     concat (map (\<lambda>st'. if length (remaining st') < length (remaining st) then ms ic (Star a) st' else [])
                 (ms ic a st)) @ [st]"
| "ms ic (LazyStar a) st =
     st # concat (map (\<lambda>st'. if length (remaining st') < length (remaining st) then ms ic (LazyStar a) st' else [])
                      (ms ic a st))"
| "ms ic (Grp a) st =
     map (\<lambda>st'. (fst st', remaining st', Some (take (length (remaining st) - length (remaining st')) (remaining st))))
         (ms ic a st)"
  by pat_completeness auto
termination
  by (relation "measures [\<lambda>(ic, r, st). size r, \<lambda>(ic, r, st). length (remaining st)]") auto

declare ms.simps [simp del]

text \<open>Shorthands for writing the expressions down.\<close>

definition Lit :: "char \<Rightarrow> rx" where
  "Lit c = Cls [Chr c]"

fun Str :: "string \<Rightarrow> rx" where
  "Str [] = Eps"
| "Str [c] = Lit c"
| "Str (c # cs) = Seq (Lit c) (Str cs)"

fun Seqs :: "rx list \<Rightarrow> rx" where
  "Seqs [] = Eps"
| "Seqs [r] = r"
| "Seqs (r # rs) = Seq r (Seqs rs)"

fun Alts :: "rx list \<Rightarrow> rx" where
  "Alts [] = Eps"
| "Alts [r] = r"
| "Alts (r # rs) = Alt r (Alts rs)"

definition Plus :: "rx \<Rightarrow> rx" where
  "Plus r = Seq r (Star r)"

definition LazyPlus :: "rx \<Rightarrow> rx" where
  "LazyPlus r = Seq r (LazyStar r)"

definition Opt :: "rx \<Rightarrow> rx" where
  "Opt r = Alt r Eps"

text \<open>
  \<open>rx_exec\<close>: the first match at or after a position, as \<open>RegExp.prototype.exec\<close>
  finds it: the text before the match, the position where it starts and the position
  where it ends.
\<close>

fun rx_exec :: "bool \<Rightarrow> rx \<Rightarrow> string \<Rightarrow> char option \<Rightarrow> string \<Rightarrow> (string \<times> rxpos \<times> rxpos) option" where
  "rx_exec ic r skipped p [] =
     (case ms ic r (p, [], None) of [] \<Rightarrow> None | e # _ \<Rightarrow> Some (skipped, (p, [], None), e))"
| "rx_exec ic r skipped p (c # cs) =
     (case ms ic r (p, c # cs, None) of
        [] \<Rightarrow> rx_exec ic r (skipped @ [c]) (Some c) cs
      | e # _ \<Rightarrow> Some (skipped, (p, c # cs, None), e))"

text \<open>\<open>regex.test(s)\<close>, also for \<open>s.match(regex)\<close> used as a condition.\<close>

definition rx_test :: "bool \<times> rx \<Rightarrow> string \<Rightarrow> bool" where
  "rx_test re s = (case rx_exec (fst re) (snd re) [] None s of None \<Rightarrow> False | Some m \<Rightarrow> True)"

text \<open>The matched text and the first group of a match.\<close>

definition matched :: "rxpos \<times> rxpos \<Rightarrow> string" where
  "matched m = take (length (remaining (fst m)) - length (remaining (snd m))) (remaining (fst m))"

definition group1 :: "rxpos \<times> rxpos \<Rightarrow> string option" where
  "group1 m = snd (snd (snd m))"

text \<open>
  \<open>s.replace(regex, rep)\<close> for a regular expression without the flag \<open>g\<close> (the
  first match only) and with it (every match, the search going on where the last match
  ended, one code unit further after an empty match). \<open>rep\<close> has no \<open>$\<close>.
\<close>

definition replaceFirst :: "bool \<times> rx \<Rightarrow> string \<Rightarrow> string \<Rightarrow> string" where
  "replaceFirst re rep s =
     (case rx_exec (fst re) (snd re) [] None s of
        None \<Rightarrow> s
      | Some (skipped, b, e) \<Rightarrow> skipped @ rep @ remaining e)"

function replaceFrom :: "bool \<times> rx \<Rightarrow> string \<Rightarrow> char option \<Rightarrow> string \<Rightarrow> string" where
  "replaceFrom re rep p s =
     (case ms (fst re) (snd re) (p, s, None) of
        [] \<Rightarrow> (case s of [] \<Rightarrow> [] | c # cs \<Rightarrow> c # replaceFrom re rep (Some c) cs)
      | e # _ \<Rightarrow>
          if length (remaining e) < length s then rep @ replaceFrom re rep (fst e) (remaining e)
          else rep @ (case s of [] \<Rightarrow> [] | c # cs \<Rightarrow> c # replaceFrom re rep (Some c) cs))"
  by pat_completeness auto
termination
  by (relation "measure (\<lambda>(re, rep, p, s). length s)") auto

declare replaceFrom.simps [simp del]

definition replaceAll :: "bool \<times> rx \<Rightarrow> string \<Rightarrow> string \<Rightarrow> string" where
  "replaceAll re rep s = replaceFrom re rep None s"

section \<open>The record validator (salonDataValidator.ts)\<close>

subsection \<open>cleanSalonName\<close>

text \<open>
  The regular expressions of \<open>cleanSalonName\<close>, in the order of the source. All carry
  the flags \<open>gi\<close> except the ellipsis (no flag) and the white space (\<open>g\<close>).
\<close>

text \<open>\<^verbatim>\<open>/\s*\([^)]*(?:already listed|duplicate|incomplete|appears to be|same as|excluded|barber|barbershop|also listed|also offers|not directly relevant|not a spa|need to check|in\s+\w+,?\s*not\s+Newtown|in\s+\w+,?\s*excluded)\)/gi\<close>\<close>

definition reAnnotation :: "bool \<times> rx" where
  "reAnnotation =
     (True, Seqs [Star (Cls [Spc]), Lit (CHR ''(''), Star (NCls [Chr (CHR '')'')]),
       Alts [Str ''already listed'', Str ''duplicate'', Str ''incomplete'', Str ''appears to be'',
       Str ''same as'', Str ''excluded'', Str ''barber'', Str ''barbershop'', Str ''also listed'',
       Str ''also offers'', Str ''not directly relevant'', Str ''not a spa'',
       Str ''need to check'', Seqs [Str ''in'', Plus (Cls [Spc]), Plus (Cls [Wrd]),
       Opt (Lit (CHR '','')), Star (Cls [Spc]), Str ''not'', Plus (Cls [Spc]), Str ''Newtown''],
       Seqs [Str ''in'', Plus (Cls [Spc]), Plus (Cls [Wrd]), Opt (Lit (CHR '','')),
       Star (Cls [Spc]), Str ''excluded'']], Lit (CHR '')'')])"

text \<open>\<^verbatim>\<open>/\s*\([^)]*(?:not\s+in|in\s+(?:Glebe|Petersham|Erskineville|Eveleigh|Marrickville|Camperdown|Stanmore|Enmore|Redfern|Balmain|Chippendale|Pyrmont|Haymarket|Sydney CBD|Waterloo))[^)]*\)/gi\<close>\<close>

definition reOtherLocation :: "bool \<times> rx" where
  "reOtherLocation =
     (True, Seqs [Star (Cls [Spc]), Lit (CHR ''(''), Star (NCls [Chr (CHR '')'')]),
       Alts [Seqs [Str ''not'', Plus (Cls [Spc]), Str ''in''], Seqs [Str ''in'', Plus (Cls [Spc]),
       Alts [Str ''Glebe'', Str ''Petersham'', Str ''Erskineville'', Str ''Eveleigh'',
       Str ''Marrickville'', Str ''Camperdown'', Str ''Stanmore'', Str ''Enmore'', Str ''Redfern'',
       Str ''Balmain'', Str ''Chippendale'', Str ''Pyrmont'', Str ''Haymarket'',
       Str ''Sydney CBD'', Str ''Waterloo'']]], Star (NCls [Chr (CHR '')'')]), Lit (CHR '')'')])"

text \<open>\<^verbatim>\<open>/\s*\((?:Newtown|Newtown\s+location|has\s+a\s+Newtown\s+location)\)/gi\<close>\<close>

definition reRedundantLocation :: "bool \<times> rx" where
  "reRedundantLocation =
     (True, Seqs [Star (Cls [Spc]), Lit (CHR ''(''), Alts [Str ''Newtown'',
       Seqs [Str ''Newtown'', Plus (Cls [Spc]), Str ''location''], Seqs [Str ''has'',
       Plus (Cls [Spc]), Lit (CHR ''a''), Plus (Cls [Spc]), Str ''Newtown'', Plus (Cls [Spc]),
       Str ''location'']], Lit (CHR '')'')])"

text \<open>\<^verbatim>\<open>/\s*\((?:hair\s+salon|nail\s+salon|beauty\s+salon|spa|massage)\)/gi\<close>\<close>

definition reCategoryLabel :: "bool \<times> rx" where
  "reCategoryLabel =
     (True, Seqs [Star (Cls [Spc]), Lit (CHR ''(''), Alts [Seqs [Str ''hair'', Plus (Cls [Spc]),
       Str ''salon''], Seqs [Str ''nail'', Plus (Cls [Spc]), Str ''salon''], Seqs [Str ''beauty'',
       Plus (Cls [Spc]), Str ''salon''], Str ''spa'', Str ''massage''], Lit (CHR '')'')])"

text \<open>\<^verbatim>\<open>/\s*\([^)]*(?:this|though|as|but|may|need|based|confirmed)\)/gi\<close>\<close>

definition reNote :: "bool \<times> rx" where
  "reNote =
     (True, Seqs [Star (Cls [Spc]), Lit (CHR ''(''), Star (NCls [Chr (CHR '')'')]),
       Alts [Str ''this'', Str ''though'', Str ''as'', Str ''but'', Str ''may'', Str ''need'',
       Str ''based'', Str ''confirmed''], Lit (CHR '')'')])"

text \<open>\<^verbatim>\<open>/\s*-\s*(?:already listed|duplicate|incomplete|appears to be|same as|excluded|need to check).*/gi\<close>\<close>

definition reTrailingAnnotation :: "bool \<times> rx" where
  "reTrailingAnnotation =
     (True, Seqs [Star (Cls [Spc]), Lit (CHR ''-''), Star (Cls [Spc]),
       Alts [Str ''already listed'', Str ''duplicate'', Str ''incomplete'', Str ''appears to be'',
       Str ''same as'', Str ''excluded'', Str ''need to check''], Star Dot])"

text \<open>\<^verbatim>\<open>/\.{2,}$/\<close>\<close>

definition reTrailingEllipsis :: "bool \<times> rx" where
  "reTrailingEllipsis =
     (False, Seqs [Str ''..'', Star (Lit (CHR ''.'')), Eol])"

text \<open>\<^verbatim>\<open>/\s+/g\<close>\<close>

definition reWhiteSpaceRun :: "bool \<times> rx" where
  "reWhiteSpaceRun =
     (False, Plus (Cls [Spc]))"

text \<open>
  The six replacements that remove annotations, applied to the trimmed name: the value of
  \<open>cleaned\<close> when the source reaches its test for \<open>'bella'\<close>.
\<close>

definition stripAnnotations :: "string \<Rightarrow> string" where
  "stripAnnotations nm =
     (let cleaned = trim nm;
          cleaned = replaceAll reAnnotation [] cleaned;
          cleaned = replaceAll reOtherLocation [] cleaned;
          cleaned = replaceAll reRedundantLocation [] cleaned;
          cleaned = replaceAll reCategoryLabel [] cleaned;
          cleaned = replaceAll reNote [] cleaned;
          cleaned = replaceAll reTrailingAnnotation [] cleaned
      in cleaned)"

definition cleanSalonName :: "string \<Rightarrow> string" where
  "cleanSalonName nm =
     (let cleaned = stripAnnotations nm;
          cleaned = (if toLowerCase cleaned = ''bella'' then ''Bella Beauty Salon'' else cleaned);
          cleaned = replaceFirst reTrailingEllipsis [] cleaned;
          cleaned = trim (replaceAll reWhiteSpaceRun '' '' cleaned)
      in cleaned)"

subsection \<open>isValidSalonName\<close>

text \<open>\<^verbatim>\<open>/^\d+[\s\/]\w+\s+(Street|St|Road|Rd|Avenue|Ave|Lane|Ln|Drive|Dr|Place|Pl),?\s+\w+$/i\<close>\<close>

definition reAddress :: "bool \<times> rx" where
  "reAddress =
     (True, Seqs [Bol, Plus (Cls [Dgt]), Cls [Spc, Chr (CHR ''/'')], Plus (Cls [Wrd]),
       Plus (Cls [Spc]), Grp (Alts [Str ''Street'', Str ''St'', Str ''Road'', Str ''Rd'',
       Str ''Avenue'', Str ''Ave'', Str ''Lane'', Str ''Ln'', Str ''Drive'', Str ''Dr'',
       Str ''Place'', Str ''Pl'']), Opt (Lit (CHR '','')), Plus (Cls [Spc]), Plus (Cls [Wrd]),
       Eol])"

text \<open>\<^verbatim>\<open>/^(Beard Trimming|Men's Shaving|Head Shave|Men's Haircut|Gel Nails|Manicure|Nail Art|Pedicure|Fish Pedicure|Dermaplaning|Microdermabrasion|Threading|Acne Facial|Henna Tattoos|Eyelash Extensions|Brow Lamination|Eyebrow Shaping|LED Light Therapy|Hair Transplants|Laser Hair Removal|Dermal Fillers|Blow Dry|Hair Extensions|Balayage|Children's Haircut|Makeup Service|Facial|Brow Shape|Rejuvenating Facial)/i\<close>\<close>

definition reServiceDescription :: "bool \<times> rx" where
  "reServiceDescription =
     (True, Seqs [Bol, Grp (Alts [Str ''Beard Trimming'', Seqs [Str ''Men'', Lit (CHR 0x27),
       Str ''s Shaving''], Str ''Head Shave'', Seqs [Str ''Men'', Lit (CHR 0x27),
       Str ''s Haircut''], Str ''Gel Nails'', Str ''Manicure'', Str ''Nail Art'', Str ''Pedicure'',
       Str ''Fish Pedicure'', Str ''Dermaplaning'', Str ''Microdermabrasion'', Str ''Threading'',
       Str ''Acne Facial'', Str ''Henna Tattoos'', Str ''Eyelash Extensions'',
       Str ''Brow Lamination'', Str ''Eyebrow Shaping'', Str ''LED Light Therapy'',
       Str ''Hair Transplants'', Str ''Laser Hair Removal'', Str ''Dermal Fillers'',
       Str ''Blow Dry'', Str ''Hair Extensions'', Str ''Balayage'', Seqs [Str ''Children'',
       Lit (CHR 0x27), Str ''s Haircut''], Str ''Makeup Service'', Str ''Facial'',
       Str ''Brow Shape'', Str ''Rejuvenating Facial''])])"

text \<open>The four \<open>locationPatterns\<close>, tried on names longer than 50.
  \<^item> \<^verbatim>\<open>/\bin\s+[A-Z][a-z]+,?\s+(NSW|VIC|QLD|SA|WA|TAS|NT|ACT)/\<close>
  \<^item> \<^verbatim>\<open>/\bAustralia\b.*\bAustralia\b/i\<close>
  \<^item> \<^verbatim>\<open>/\b(locate|find|search|list)\b/i\<close>
  \<^item> \<^verbatim>\<open>/\b(all|every|each|any)\s+salons?\b/i\<close>
\<close>

definition locationPatterns :: "(bool \<times> rx) list" where
  "locationPatterns =
     [(False, Seqs [WordB, Str ''in'', Plus (Cls [Spc]), Cls [Rng (CHR ''A'') (CHR ''Z'')],
        Plus (Cls [Rng (CHR ''a'') (CHR ''z'')]), Opt (Lit (CHR '','')), Plus (Cls [Spc]),
        Grp (Alts [Str ''NSW'', Str ''VIC'', Str ''QLD'', Str ''SA'', Str ''WA'', Str ''TAS'',
        Str ''NT'', Str ''ACT''])]),
      (True, Seqs [WordB, Str ''Australia'', WordB, Star Dot, WordB, Str ''Australia'', WordB]),
      (True, Seqs [WordB, Grp (Alts [Str ''locate'', Str ''find'', Str ''search'',
        Str ''list'']), WordB]),
      (True, Seqs [WordB, Grp (Alts [Str ''all'', Str ''every'', Str ''each'', Str ''any'']),
        Plus (Cls [Spc]), Str ''salon'', Opt (Lit (CHR ''s'')), WordB])]"

text \<open>\<^verbatim>\<open>/^\d+$/\<close>\<close>

definition reDigitsOnly :: "bool \<times> rx" where
  "reDigitsOnly =
     (False, Seqs [Bol, Plus (Cls [Dgt]), Eol])"

text \<open>\<^verbatim>\<open>/^[A-Z][a-z]+$/\<close>\<close>

definition reSingleCapitalizedWord :: "bool \<times> rx" where
  "reSingleCapitalizedWord =
     (False, Seqs [Bol, Cls [Rng (CHR ''A'') (CHR ''Z'')],
       Plus (Cls [Rng (CHR ''a'') (CHR ''z'')]), Eol])"

text \<open>The \<open>invalidPatterns\<close>, in the order of the source.
  \<^item> \<^verbatim>\<open>/^\[?\d+\]?$/\<close>
  \<^item> \<^verbatim>\<open>/^from\s+\[/i\<close>
  \<^item> \<^verbatim>\<open>/^reference\s+/i\<close>
  \<^item> \<^verbatim>\<open>/^result\s+\d+/i\<close>
  \<^item> \<^verbatim>\<open>/^okay\s*,?\s*i/i\<close>
  \<^item> \<^verbatim>\<open>/^the\s+user/i\<close>
  \<^item> \<^verbatim>\<open>/^here\s+(are|is)/i\<close>
  \<^item> \<^verbatim>\<open>/^based\s+on/i\<close>
  \<^item> \<^verbatim>\<open>/^according\s+to/i\<close>
  \<^item> \<^verbatim>\<open>/^\s*<.*>\s*$/\<close>
  \<^item> \<^verbatim>\<open>/^```/\<close>
  \<^item> \<^verbatim>\<open>/^list\s+(of\s+)?.*salons?\s+in/i\<close>
  \<^item> \<^verbatim>\<open>/^find\s+.*salons?\s+in/i\<close>
  \<^item> \<^verbatim>\<open>/^search\s+for\s+.*salons?/i\<close>
  \<^item> \<^verbatim>\<open>/^salon\s+name\s+\d+$/i\<close>
  \<^item> \<^verbatim>\<open>/^example\s+salon/i\<close>
  \<^item> \<^verbatim>\<open>/^let\s+me\s+/i\<close>
  \<^item> \<^verbatim>\<open>/^i\s+(need|will|should|must)\s+/i\<close>
  \<^item> \<^verbatim>\<open>/^now\s+i('ll|'ll|ll)\s+/i\<close>
  \<^item> \<^verbatim>\<open>/^beauty\s+salons?:?$/i\<close>
  \<^item> \<^verbatim>\<open>/^hair\s+salons?:?$/i\<close>
  \<^item> \<^verbatim>\<open>/^nail\s+salons?:?$/i\<close>
  \<^item> \<^verbatim>\<open>/^day\s+spas?.*:?$/i\<close>
  \<^item> \<^verbatim>\<open>/^lash\s+and\s+brow.*:?$/i\<close>
  \<^item> \<^verbatim>\<open>/^skin\s+clinics?.*:?$/i\<close>
  \<^item> \<^verbatim>\<open>/^spas?:?$/i\<close>
  \<^item> \<^verbatim>\<open>/^exclude\s+/i\<close>
  \<^item> \<^verbatim>\<open>/^deduplicate\s+/i\<close>
  \<^item> \<^verbatim>\<open>/^use\s+the\s+exact/i\<close>
  \<^item> \<^verbatim>\<open>/^all\s+others?\s+appear/i\<close>
  \<^item> \<^verbatim>\<open>/^i('ll|'ll|ll)\s+use\s+the/i\<close>
  \<^item> \<^verbatim>\<open>/^test\s+salon/i\<close>
  \<^item> \<^verbatim>\<open>/^sample\s+salon/i\<close>
  \<^item> \<^verbatim>\<open>/^placeholder/i\<close>
  \<^item> \<^verbatim>\<open>/^beauty\s+and\s+hair\s+salons?\s+in/i\<close>
  \<^item> \<^verbatim>\<open>/^hair\s+salons?\s+in/i\<close>
  \<^item> \<^verbatim>\<open>/^nail\s+salons?\s+in/i\<close>
  \<^item> \<^verbatim>\<open>/^all\s+salons?\s+in/i\<close>
  \<^item> \<^verbatim>\<open>/^this\s+gives\s+me/i\<close>
  \<^item> \<^verbatim>\<open>/^after\s+removing/i\<close>
  \<^item> \<^verbatim>\<open>/^title\s+\(/i\<close>
  \<^item> \<^verbatim>\<open>/^summary\s+paragraph/i\<close>
  \<^item> \<^verbatim>\<open>/^main\s+body/i\<close>
  \<^item> \<^verbatim>\<open>/^conclusion\s+\(/i\<close>
  \<^item> \<^verbatim>\<open>/^i('ll|'ll|ll)\s+make\s+sure/i\<close>
  \<^item> \<^verbatim>\<open>/^newtown's\s+hair\s+salon\s+scene/i\<close>
  \<^item> \<^verbatim>\<open>/\b(NSW|VIC|QLD|SA|WA|TAS|NT|ACT),\s+Australia,?\s+(NSW|VIC|QLD|SA|WA|TAS|NT|ACT)/i\<close>
\<close>

definition invalidPatterns :: "(bool \<times> rx) list" where
  "invalidPatterns =
     [(False, Seqs [Bol, Opt (Lit (CHR ''['')), Plus (Cls [Dgt]), Opt (Lit (CHR '']'')), Eol]),
      (True, Seqs [Bol, Str ''from'', Plus (Cls [Spc]), Lit (CHR ''['')]),
      (True, Seqs [Bol, Str ''reference'', Plus (Cls [Spc])]),
      (True, Seqs [Bol, Str ''result'', Plus (Cls [Spc]), Plus (Cls [Dgt])]),
      (True, Seqs [Bol, Str ''okay'', Star (Cls [Spc]), Opt (Lit (CHR '','')), Star (Cls [Spc]),
        Lit (CHR ''i'')]),
      (True, Seqs [Bol, Str ''the'', Plus (Cls [Spc]), Str ''user'']),
      (True, Seqs [Bol, Str ''here'', Plus (Cls [Spc]), Grp (Alts [Str ''are'', Str ''is''])]),
      (True, Seqs [Bol, Str ''based'', Plus (Cls [Spc]), Str ''on'']),
      (True, Seqs [Bol, Str ''according'', Plus (Cls [Spc]), Str ''to'']),
      (False, Seqs [Bol, Star (Cls [Spc]), Lit (CHR ''<''), Star Dot, Lit (CHR ''>''),
        Star (Cls [Spc]), Eol]),
      (False, Seqs [Bol, Lit (CHR 0x60), Lit (CHR 0x60), Lit (CHR 0x60)]),
      (True, Seqs [Bol, Str ''list'', Plus (Cls [Spc]), Opt (Grp (Seqs [Str ''of'',
        Plus (Cls [Spc])])), Star Dot, Str ''salon'', Opt (Lit (CHR ''s'')), Plus (Cls [Spc]),
        Str ''in'']),
      (True, Seqs [Bol, Str ''find'', Plus (Cls [Spc]), Star Dot, Str ''salon'',
        Opt (Lit (CHR ''s'')), Plus (Cls [Spc]), Str ''in'']),
      (True, Seqs [Bol, Str ''search'', Plus (Cls [Spc]), Str ''for'', Plus (Cls [Spc]),
        Star Dot, Str ''salon'', Opt (Lit (CHR ''s''))]),
      (True, Seqs [Bol, Str ''salon'', Plus (Cls [Spc]), Str ''name'', Plus (Cls [Spc]),
        Plus (Cls [Dgt]), Eol]),
      (True, Seqs [Bol, Str ''example'', Plus (Cls [Spc]), Str ''salon'']),
      (True, Seqs [Bol, Str ''let'', Plus (Cls [Spc]), Str ''me'', Plus (Cls [Spc])]),
      (True, Seqs [Bol, Lit (CHR ''i''), Plus (Cls [Spc]), Grp (Alts [Str ''need'', Str ''will'',
        Str ''should'', Str ''must'']), Plus (Cls [Spc])]),
      (True, Seqs [Bol, Str ''now'', Plus (Cls [Spc]), Lit (CHR ''i''),
        Grp (Alts [Seqs [Lit (CHR 0x27), Str ''ll''], Seqs [Lit (CHR 0x27), Str ''ll''],
        Str ''ll'']), Plus (Cls [Spc])]),
      (True, Seqs [Bol, Str ''beauty'', Plus (Cls [Spc]), Str ''salon'', Opt (Lit (CHR ''s'')),
        Opt (Lit (CHR '':'')), Eol]),
      (True, Seqs [Bol, Str ''hair'', Plus (Cls [Spc]), Str ''salon'', Opt (Lit (CHR ''s'')),
        Opt (Lit (CHR '':'')), Eol]),
      (True, Seqs [Bol, Str ''nail'', Plus (Cls [Spc]), Str ''salon'', Opt (Lit (CHR ''s'')),
        Opt (Lit (CHR '':'')), Eol]),
      (True, Seqs [Bol, Str ''day'', Plus (Cls [Spc]), Str ''spa'', Opt (Lit (CHR ''s'')),
        Star Dot, Opt (Lit (CHR '':'')), Eol]),
      (True, Seqs [Bol, Str ''lash'', Plus (Cls [Spc]), Str ''and'', Plus (Cls [Spc]),
        Str ''brow'', Star Dot, Opt (Lit (CHR '':'')), Eol]),
      (True, Seqs [Bol, Str ''skin'', Plus (Cls [Spc]), Str ''clinic'', Opt (Lit (CHR ''s'')),
        Star Dot, Opt (Lit (CHR '':'')), Eol]),
      (True, Seqs [Bol, Str ''spa'', Opt (Lit (CHR ''s'')), Opt (Lit (CHR '':'')), Eol]),
      (True, Seqs [Bol, Str ''exclude'', Plus (Cls [Spc])]),
      (True, Seqs [Bol, Str ''deduplicate'', Plus (Cls [Spc])]),
      (True, Seqs [Bol, Str ''use'', Plus (Cls [Spc]), Str ''the'', Plus (Cls [Spc]),
        Str ''exact'']),
      (True, Seqs [Bol, Str ''all'', Plus (Cls [Spc]), Str ''other'', Opt (Lit (CHR ''s'')),
        Plus (Cls [Spc]), Str ''appear'']),
      (True, Seqs [Bol, Lit (CHR ''i''), Grp (Alts [Seqs [Lit (CHR 0x27), Str ''ll''],
        Seqs [Lit (CHR 0x27), Str ''ll''], Str ''ll'']), Plus (Cls [Spc]), Str ''use'',
        Plus (Cls [Spc]), Str ''the'']),
      (True, Seqs [Bol, Str ''test'', Plus (Cls [Spc]), Str ''salon'']),
      (True, Seqs [Bol, Str ''sample'', Plus (Cls [Spc]), Str ''salon'']),
      (True, Seqs [Bol, Str ''placeholder'']),
      (True, Seqs [Bol, Str ''beauty'', Plus (Cls [Spc]), Str ''and'', Plus (Cls [Spc]),
        Str ''hair'', Plus (Cls [Spc]), Str ''salon'', Opt (Lit (CHR ''s'')), Plus (Cls [Spc]),
        Str ''in'']),
      (True, Seqs [Bol, Str ''hair'', Plus (Cls [Spc]), Str ''salon'', Opt (Lit (CHR ''s'')),
        Plus (Cls [Spc]), Str ''in'']),
      (True, Seqs [Bol, Str ''nail'', Plus (Cls [Spc]), Str ''salon'', Opt (Lit (CHR ''s'')),
        Plus (Cls [Spc]), Str ''in'']),
      (True, Seqs [Bol, Str ''all'', Plus (Cls [Spc]), Str ''salon'', Opt (Lit (CHR ''s'')),
        Plus (Cls [Spc]), Str ''in'']),
      (True, Seqs [Bol, Str ''this'', Plus (Cls [Spc]), Str ''gives'', Plus (Cls [Spc]),
        Str ''me'']),
      (True, Seqs [Bol, Str ''after'', Plus (Cls [Spc]), Str ''removing'']),
      (True, Seqs [Bol, Str ''title'', Plus (Cls [Spc]), Lit (CHR ''('')]),
      (True, Seqs [Bol, Str ''summary'', Plus (Cls [Spc]), Str ''paragraph'']),
      (True, Seqs [Bol, Str ''main'', Plus (Cls [Spc]), Str ''body'']),
      (True, Seqs [Bol, Str ''conclusion'', Plus (Cls [Spc]), Lit (CHR ''('')]),
      (True, Seqs [Bol, Lit (CHR ''i''), Grp (Alts [Seqs [Lit (CHR 0x27), Str ''ll''],
        Seqs [Lit (CHR 0x27), Str ''ll''], Str ''ll'']), Plus (Cls [Spc]), Str ''make'',
        Plus (Cls [Spc]), Str ''sure'']),
      (True, Seqs [Bol, Str ''newtown'', Lit (CHR 0x27), Lit (CHR ''s''), Plus (Cls [Spc]),
        Str ''hair'', Plus (Cls [Spc]), Str ''salon'', Plus (Cls [Spc]), Str ''scene'']),
      (True, Seqs [WordB, Grp (Alts [Str ''NSW'', Str ''VIC'', Str ''QLD'', Str ''SA'',
        Str ''WA'', Str ''TAS'', Str ''NT'', Str ''ACT'']), Lit (CHR '',''), Plus (Cls [Spc]),
        Str ''Australia'', Opt (Lit (CHR '','')), Plus (Cls [Spc]), Grp (Alts [Str ''NSW'',
        Str ''VIC'', Str ''QLD'', Str ''SA'', Str ''WA'', Str ''TAS'', Str ''NT'', Str ''ACT''])])]"

text \<open>\<^verbatim>\<open>/[a-zA-Z]/\<close>\<close>

definition reLetter :: "bool \<times> rx" where
  "reLetter =
     (False, Cls [Rng (CHR ''a'') (CHR ''z''), Rng (CHR ''A'') (CHR ''Z'')])"

text \<open>The literal strings of the function's tests.\<close>

definition reasoningPrefixes :: "string list" where
  "reasoningPrefixes = [''They want'', (''That'' @ [CHR 0x27] @ ''s ''), ''So I have'']"

definition reasoningFragments :: "string list" where
  "reasoningFragments =
     [''businesses that are confirmed'', ''user asked for'', ''Let me'', ''I need to'',
        ''I have'', (''I'' @ [CHR 0x27] @ ''ve''), ''I think'', ''I will'',
        (''I'' @ [CHR 0x27] @ ''ll'')]"

definition incompleteNames :: "string list" where
  "incompleteNames = [''new'', ''bella'', ''african salon'', ''now'', ''menzone'']"

definition validSingleWords :: "string list" where
  "validSingleWords = [''bob'', ''scissorhands'', ''noddys'', ''guilles'']"

definition moreReasoningFragments :: "string list" where
  "moreReasoningFragments =
     [''need to exclude'', ''need to check'', ''already listed'', ''appears to be'',
        ''location not specified'', ''but listed'', ''as per search results'', ''I need to'',
        ''Let me'', ''Now I'', ''should be excluded'', ''verify which'', ''go through'',
        ''compile this list'', ''extract the relevant'', ''check if'', ''organize them'',
        ''remove duplicates'', ''based on the criteria'', ''category:'', ''categories:'']"

definition genericTerms :: "string list" where
  "genericTerms =
     [''thinking'', ''processing'', ''loading'', ''error'', ''undefined'', ''null'', ''none'',
        ''n/a'', ''not found'', ''unavailable'', ''hair salons'', ''beauty salons'',
        ''nail salons'', ''day spas'', ''lash studios'', ''skin clinics'', ''wellness centers'',
        ''massage centers'', ''lash extension studios'', ''massage parlors'',
        ''waxing and hair removal clinics'', ''makeup studios'', ''hair salons and barbershops'']"

text \<open>
  \<open>isValidSalonName\<close> on a string (on any other value it returns \<open>false\<close>). The
  tests come in the order of the source; each one that fires returns \<open>false\<close>.
\<close>

definition isValidSalonName :: "string \<Rightarrow> bool" where
  "isValidSalonName nm =
     (let trimmed = trim nm in
      if length trimmed < 2 \<or> 100 < length trimmed then False
      else if list_ex (startsWith trimmed) reasoningPrefixes
              \<or> list_ex (str_includes trimmed) reasoningFragments then False
      else if rx_test reAddress trimmed then False
      else if rx_test reServiceDescription trimmed then False
      else if 50 < length trimmed \<and> list_ex (\<lambda>pattern. rx_test pattern trimmed) locationPatterns
      then False
      else if rx_test reDigitsOnly trimmed then False
      else if (list_ex (\<lambda>w. toLowerCase trimmed = w) incompleteNames
                 \<or> rx_test reSingleCapitalizedWord trimmed)
              \<and> list_all (\<lambda>w. toLowerCase trimmed \<noteq> w) validSingleWords
      then False
      else if list_ex (str_includes trimmed) moreReasoningFragments then False
      else if list_ex (\<lambda>pattern. rx_test pattern trimmed) invalidPatterns then False
      else if \<not> rx_test reLetter trimmed then False
      else if list_ex (\<lambda>term. toLowerCase trimmed = term) genericTerms then False
      else True)"

subsection \<open>validateSalonList\<close>

text \<open>The patterns of category headers and summary lines, in the order of the source.
  \<^item> \<^verbatim>\<open>/^(Hair|Beauty|Nail|Day|Lash|Skin|Massage)\s+(Salons?|Studios?|Clinics?|Centers?|Spas?)\s*\(\d+\):/i\<close>
  \<^item> \<^verbatim>\<open>/^This gives me a total/i\<close>
  \<^item> \<^verbatim>\<open>/^After removing duplicates/i\<close>
  \<^item> \<^verbatim>\<open>/is listed multiple times/i\<close>
  \<^item> \<^verbatim>\<open>/^(Title|Summary|Main Body|Conclusion)\s*\(/i\<close>
  \<^item> \<^verbatim>\<open>/^They want/i\<close>
  \<^item> \<^verbatim>\<open>/^That's \d+ businesses/i\<close>
  \<^item> \<^verbatim>\<open>/^So I have/i\<close>
  \<^item> \<^verbatim>\<open>/^\d+\/\d+\s+\w+\s+(Street|St|Road|Rd)/i\<close>
\<close>

definition metaTextPatterns :: "(bool \<times> rx) list" where
  "metaTextPatterns =
     [(True, Seqs [Bol, Grp (Alts [Str ''Hair'', Str ''Beauty'', Str ''Nail'', Str ''Day'',
        Str ''Lash'', Str ''Skin'', Str ''Massage'']), Plus (Cls [Spc]),
        Grp (Alts [Seqs [Str ''Salon'', Opt (Lit (CHR ''s''))], Seqs [Str ''Studio'',
        Opt (Lit (CHR ''s''))], Seqs [Str ''Clinic'', Opt (Lit (CHR ''s''))], Seqs [Str ''Center'',
        Opt (Lit (CHR ''s''))], Seqs [Str ''Spa'', Opt (Lit (CHR ''s''))]]), Star (Cls [Spc]),
        Lit (CHR ''(''), Plus (Cls [Dgt]), Str ''):'']),
      (True, Seqs [Bol, Str ''This gives me a total'']),
      (True, Seqs [Bol, Str ''After removing duplicates'']),
      (True, Str ''is listed multiple times''),
      (True, Seqs [Bol, Grp (Alts [Str ''Title'', Str ''Summary'', Str ''Main Body'',
        Str ''Conclusion'']), Star (Cls [Spc]), Lit (CHR ''('')]),
      (True, Seqs [Bol, Str ''They want'']),
      (True, Seqs [Bol, Str ''That'', Lit (CHR 0x27), Str ''s '', Plus (Cls [Dgt]),
        Str '' businesses'']),
      (True, Seqs [Bol, Str ''So I have'']),
      (True, Seqs [Bol, Plus (Cls [Dgt]), Lit (CHR ''/''), Plus (Cls [Dgt]), Plus (Cls [Spc]),
        Plus (Cls [Wrd]), Plus (Cls [Spc]), Grp (Alts [Str ''Street'', Str ''St'', Str ''Road'',
        Str ''Rd''])])]"

text \<open>\<^verbatim>\<open>/\((?:in\s+(?:Glebe|Petersham|Erskineville|Eveleigh|Marrickville|Camperdown|Stanmore|Enmore|Redfern),?\s*)?not\s+(?:in\s+)?Newtown\)/i\<close>\<close>

definition reNotInTargetArea :: "bool \<times> rx" where
  "reNotInTargetArea =
     (True, Seqs [Lit (CHR ''(''), Opt (Seqs [Str ''in'', Plus (Cls [Spc]), Alts [Str ''Glebe'',
       Str ''Petersham'', Str ''Erskineville'', Str ''Eveleigh'', Str ''Marrickville'',
       Str ''Camperdown'', Str ''Stanmore'', Str ''Enmore'', Str ''Redfern''],
       Opt (Lit (CHR '','')), Star (Cls [Spc])]), Str ''not'', Plus (Cls [Spc]),
       Opt (Seqs [Str ''in'', Plus (Cls [Spc])]), Str ''Newtown)''])"

text \<open>
  The issues of a validation, as data: the kind of the message and the values it
  interpolates.
\<close>

datatype issue =
    DataIsNotAnArray
  | InvalidDataStructure
  | InvalidSalonName json
  | SkippedMetaText string
  | RejectedOutOfArea string
  | CleanedAnnotatedItem string string
  | RejectedItem string
  | RejectedNonStringItem json
  | RemovedDuplicates nat
  | NoValidSalonNames
  | OnlyOneSalon

record ValidationResult =
  isValid :: bool
  cleaned :: "string list"
  issues :: "issue list"

text \<open>\<open>data.split('\n')\<close>\<close>

fun splitLines :: "string \<Rightarrow> string \<Rightarrow> string list" where
  "splitLines cur [] = [cur]"
| "splitLines cur (c # cs) =
     (if c = CHR 0x0A then cur # splitLines [] cs else splitLines (cur @ [c]) cs)"

text \<open>
  \<open>Array.from(new Set(cleaned))\<close>: the distinct strings, each at the place of its
  first occurrence.
\<close>

fun uniqueInOrder :: "string list \<Rightarrow> string list \<Rightarrow> string list" where
  "uniqueInOrder seen [] = []"
| "uniqueInOrder seen (x # xs) =
     (if x \<in> set seen then uniqueInOrder seen xs else x # uniqueInOrder (x # seen) xs)"

definition isMetaText :: "string \<Rightarrow> bool" where
  "isMetaText s =
     (list_ex (\<lambda>pattern. rx_test pattern s) metaTextPatterns
      \<or> str_includes s ''establishments if they exist''
      \<or> str_includes s ''businesses that are confirmed'')"

text \<open>
  One turn of the loop over the array, on the lists \<open>cleaned\<close> and \<open>issues\<close>.
  \<open>Inl ()\<close> is the \<open>TypeError\<close> of \<open>cleanSalonName\<close> called on an object's
  \<open>name\<close> that is truthy and no string (it has no \<open>trim\<close>).
\<close>

definition processItem :: "json \<Rightarrow> string list \<times> issue list \<Rightarrow> unit + string list \<times> issue list" where
  "processItem it acc =
     (let named = (case it of
                     JObj kvs \<Rightarrow> (case property it ''name'' of None \<Rightarrow> None
                                  | Some v \<Rightarrow> if truthy v then Some v else None)
                   | _ \<Rightarrow> None)
      in case named of
           Some v \<Rightarrow>
             (case v of
                JStr s \<Rightarrow>
                  let cleanedName = cleanSalonName s
                  in if isValidSalonName cleanedName then Inr (fst acc @ [cleanedName], snd acc)
                     else Inr (fst acc, snd acc @ [InvalidSalonName v])
              | _ \<Rightarrow> Inl ())
         | None \<Rightarrow>
             (case it of
                JStr s \<Rightarrow>
                  if isMetaText s then Inr (fst acc, snd acc @ [SkippedMetaText s])
                  else if rx_test reNotInTargetArea s then Inr (fst acc, snd acc @ [RejectedOutOfArea s])
                  else let cleanedName = cleanSalonName s
                       in if isValidSalonName cleanedName then Inr (fst acc @ [cleanedName], snd acc)
                          else if str_includes s ''('' \<and> str_includes s '')''
                          then Inr (fst acc, snd acc @ [CleanedAnnotatedItem s
                                       (if cleanedName = [] then ''invalid'' else cleanedName)])
                          else Inr (fst acc, snd acc @ [RejectedItem s])
              | _ \<Rightarrow> Inr (fst acc, snd acc @ [RejectedNonStringItem it])))"

fun processItems :: "json list \<Rightarrow> string list \<times> issue list \<Rightarrow> unit + string list \<times> issue list" where
  "processItems [] acc = Inr acc"
| "processItems (it # its) acc =
     (case processItem it acc of Inl e \<Rightarrow> Inl e | Inr acc' \<Rightarrow> processItems its acc')"

text \<open>The end of the function: duplicates removed, the verdict and its warnings.\<close>

definition finishValidation :: "string list \<times> issue list \<Rightarrow> ValidationResult" where
  "finishValidation acc =
     (let uniqueCleaned = uniqueInOrder [] (fst acc);
          issues1 = (if length uniqueCleaned < length (fst acc)
                     then snd acc @ [RemovedDuplicates (length (fst acc) - length uniqueCleaned)]
                     else snd acc);
          valid = (0 < length uniqueCleaned);
          issues2 = (if valid then (if length uniqueCleaned = 1 then issues1 @ [OnlyOneSalon] else issues1)
                     else issues1 @ [NoValidSalonNames])
      in \<lparr>isValid = valid, cleaned = uniqueCleaned, issues = issues2\<rparr>)"

definition validateSalonList :: "json \<Rightarrow> unit + ValidationResult" where
  "validateSalonList data =
     (case data of
        JArr its \<Rightarrow> map_sum id finishValidation (processItems its ([], []))
      | JStr s \<Rightarrow>
          Inr (finishValidation
                 (filter isValidSalonName (map trim (splitLines [] s)), [DataIsNotAnArray]))
      | JObj kvs \<Rightarrow>
          (case property data ''salons'' of
             Some (JArr its) \<Rightarrow>
               map_sum id finishValidation (processItems its ([], [DataIsNotAnArray]))
           | _ \<Rightarrow> Inr \<lparr>isValid = False, cleaned = [], issues = [InvalidDataStructure]\<rparr>)
      | _ \<Rightarrow> Inr (finishValidation ([], [DataIsNotAnArray])))"

section \<open>Request governor: the sliding-window rate limiter (rateLimiter.ts)\<close>

text \<open>
  Times are milliseconds since the epoch, as \<open>Date.now()\<close> returns them; they are
  modelled as unbounded integers (the source keeps them well inside the range where a
  JavaScript number is an exact integer). Every method that reads \<open>Date.now()\<close> takes
  the reading as its first argument \<open>now\<close>.
\<close>

record RateLimiter =
  requestTimes :: "int list"
  maxRequests :: nat
  windowMs :: int
  backoffUntil :: int
  consecutiveErrors :: nat

definition newRateLimiter :: "nat \<Rightarrow> int \<Rightarrow> RateLimiter" where
  "newRateLimiter mr w =
     \<lparr>requestTimes = [], maxRequests = mr, windowMs = w, backoffUntil = 0, consecutiveErrors = 0\<rparr>"

text \<open>The singleton \<open>perplexityRateLimiter = new RateLimiter(50, 60000)\<close>.\<close>

definition perplexityRateLimiter :: RateLimiter where
  "perplexityRateLimiter = newRateLimiter 50 60000"

definition canMakeRequest :: "int \<Rightarrow> RateLimiter \<Rightarrow> bool \<times> RateLimiter" where
  "canMakeRequest now rl =
     (if now < backoffUntil rl then (False, rl)
      else let rl' = rl\<lparr>requestTimes := filter (\<lambda>t. now - t < windowMs rl) (requestTimes rl)\<rparr>
           in (length (requestTimes rl') < maxRequests rl', rl'))"

definition recordRequest :: "int \<Rightarrow> RateLimiter \<Rightarrow> RateLimiter" where
  "recordRequest now rl = rl\<lparr>requestTimes := requestTimes rl @ [now], consecutiveErrors := 0\<rparr>"

definition handle429Error :: "int \<Rightarrow> RateLimiter \<Rightarrow> RateLimiter" where
  "handle429Error now rl =
     (let errs = Suc (consecutiveErrors rl);
          backoffSeconds = min (2 ^ errs) (300 :: int)
      in rl\<lparr>consecutiveErrors := errs, backoffUntil := now + backoffSeconds * 1000\<rparr>)"

definition handleServerError :: "int \<Rightarrow> nat \<Rightarrow> RateLimiter \<Rightarrow> RateLimiter" where
  "handleServerError now statusCode rl =
     (let errs = Suc (consecutiveErrors rl);
          backoffSeconds =
            (if statusCode = 401 then min (2 ^ (errs + 1) * 2) (600 :: int)
             else if statusCode = 500 then min (2 ^ (errs + 1) * 3) 600
             else min (2 ^ errs) 120)
      in rl\<lparr>consecutiveErrors := errs, backoffUntil := now + backoffSeconds * 1000\<rparr>)"

definition getRemainingRequests :: "int \<Rightarrow> RateLimiter \<Rightarrow> int \<times> RateLimiter" where
  "getRemainingRequests now rl =
     (let rl' = rl\<lparr>requestTimes := filter (\<lambda>t. now - t < windowMs rl) (requestTimes rl)\<rparr>
      in (max 0 (int (maxRequests rl') - int (length (requestTimes rl'))), rl'))"

text \<open>
  \<open>Math.min(...requestTimes)\<close>: the least element; on the empty list JavaScript gives
  \<open>Infinity\<close>, which is \<open>None\<close> here.
\<close>

fun Math_min :: "int list \<Rightarrow> int option" where
  "Math_min [] = None"
| "Math_min (x # xs) = (case Math_min xs of None \<Rightarrow> Some x | Some m \<Rightarrow> Some (min x m))"

text \<open>
  \<open>getTimeUntilNextSlot\<close> returns a number of milliseconds; \<open>None\<close> stands for
  \<open>Infinity\<close> (only when the window is full while holding no request, that is when
  \<open>maxRequests = 0\<close>).
\<close>

definition getTimeUntilNextSlot :: "int \<Rightarrow> RateLimiter \<Rightarrow> int option \<times> RateLimiter" where
  "getTimeUntilNextSlot now rl =
     (if now < backoffUntil rl then (Some (backoffUntil rl - now), rl)
      else let rl' = rl\<lparr>requestTimes := filter (\<lambda>t. now - t < windowMs rl) (requestTimes rl)\<rparr>
           in if length (requestTimes rl') < maxRequests rl' then (Some 0, rl')
              else (case Math_min (requestTimes rl') of
                      None \<Rightarrow> (None, rl')
                    | Some oldestRequest \<Rightarrow> (Some (max 0 (windowMs rl' - (now - oldestRequest))), rl')))"

definition reset :: "RateLimiter \<Rightarrow> RateLimiter" where
  "reset rl = rl\<lparr>requestTimes := [], backoffUntil := 0, consecutiveErrors := 0\<rparr>"

text \<open>
  \<open>setTimeout(resolve, t)\<close>: the timer of the runtime fires after \<open>t\<close> milliseconds,
  and after 1 millisecond when \<open>t\<close> is below 1 or above \<open>2^31 - 1\<close> (\<open>None\<close>,
  for \<open>Infinity\<close>, included). The model lets exactly that much time pass.
\<close>

definition setTimeout_delay :: "int option \<Rightarrow> int" where
  "setTimeout_delay t =
     (case t of None \<Rightarrow> 1 | Some d \<Rightarrow> if d < 1 \<or> 2147483647 < d then 1 else d)"

text \<open>
  \<open>waitForSlot\<close> takes the clock and returns the clock after the wait, with the
  limiter.
\<close>

definition waitForSlot :: "int \<Rightarrow> RateLimiter \<Rightarrow> int \<times> RateLimiter" where
  "waitForSlot now rl =
     (if now < backoffUntil rl then (now + setTimeout_delay (Some (backoffUntil rl - now)), rl)
      else let rl1 = rl\<lparr>requestTimes := filter (\<lambda>t. now - t < windowMs rl) (requestTimes rl)\<rparr>
           in if maxRequests rl1 \<le> length (requestTimes rl1)
              then let waitTime = (case Math_min (requestTimes rl1) of
                                     None \<Rightarrow> None
                                   | Some oldestRequest \<Rightarrow>
                                       Some (max 0 (windowMs rl1 - (now - oldestRequest) + 100)));
                       now' = now + setTimeout_delay waitTime
                   in (now', rl1\<lparr>requestTimes :=
                                filter (\<lambda>t. now' - t < windowMs rl1) (requestTimes rl1)\<rparr>)
              else (now, rl1))"

section \<open>Request governor: one upstream call and its retry loop (perplexityClient.ts)\<close>

text \<open>
  What one \<open>axios.post\<close> can come back with: a response, whose first completion's text
  may be missing (\<open>None\<close>) or empty; an axios error with the HTTP status of the
  response (\<open>None\<close> when there is no response, a network error) and the error message;
  or any other exception.
\<close>

datatype upstream =
    Response "string option"
  | AxiosError "nat option" string
  | OtherException

text \<open>
  One upstream call as the environment supplies it: the outcome, the time the call takes
  and the value \<open>Math.random()\<close> returns when a backoff is computed.
\<close>

record call =
  outcome :: upstream
  latency :: int
  random :: rat

text \<open>
  Messages are kept as data rather than rendered text: the kind of the message with the
  values it interpolates.
\<close>

datatype retry_kind = RateLimitHit | AuthError | ServerError | ApiError

datatype final_message =
    AuthenticationFailedAfter nat
  | ServerErrorPersistedAfter nat
  | ApiErrorFinalAfter nat string
  | InvalidResponseFormat
  | AllStrategiesExhausted
  | Rethrown

text \<open>
  \<open>RetryableError(message, attempt, maxAttempts, nextRetryMs)\<close>, and the plain
  \<open>Error\<close>. A wait is a number of milliseconds, \<open>None\<close> for \<open>Infinity\<close>.
\<close>

datatype failure =
    RetryableError retry_kind string nat nat "rat option"
  | Error final_message

definition isRetryableError :: "nat option \<Rightarrow> bool" where
  "isRetryableError status =
     (case status of
        None \<Rightarrow> True
      | Some st \<Rightarrow> st = 401 \<or> st = 429 \<or> st = 500 \<or> st = 502 \<or> st = 503 \<or> st = 504 \<or> st = 0)"

text \<open>
  \<open>calculateBackoff(attempt, baseDelay, status)\<close>, with the value \<open>rnd\<close> of
  \<open>Math.random()\<close> as a further argument. The arithmetic is exact (rationals); the
  rounding of floating point is not modelled.
\<close>

definition calculateBackoff :: "nat \<Rightarrow> rat \<Rightarrow> nat option \<Rightarrow> rat \<Rightarrow> rat" where
  "calculateBackoff attempt baseDelay status rnd =
     (let maxDelay = (if status = Some 429 then 300000
                      else if status = Some 503 \<or> status = Some 502 \<or> status = Some 504 then 120000
                      else 600000);
          exponential = baseDelay * 2 ^ attempt;
          jitter = rnd * 1000
      in min (exponential + jitter) maxDelay)"

definition MAX_RETRIES :: nat where
  "MAX_RETRIES = 5"

text \<open>The governor's state: the clock and the rate limiter singleton.\<close>

record world =
  clock :: int
  limiter :: RateLimiter

text \<open>
  \<open>makeRequest\<close>. Its \<open>while (true)\<close> body ends, on every path, in a \<open>return\<close>
  or in a \<open>throw\<close> that leaves the function (the \<open>throw\<close>s are inside the
  \<open>catch\<close> block), so the body runs once per call, with the local \<open>attempt\<close>
  at 0 when the \<open>catch\<close> block is entered.
\<close>

definition makeRequest :: "call \<Rightarrow> world \<Rightarrow> (failure + string) \<times> world" where
  "makeRequest c w =
     (let attempt = (0::nat);
          (now1, rl1) = waitForSlot (clock w) (limiter w);
          now2 = now1 + latency c
      in case outcome c of
           Response content \<Rightarrow>
             if truthy_str content
             then (Inr (the content), \<lparr>clock = now2, limiter = recordRequest now2 rl1\<rparr>)
             else (Inl (Error InvalidResponseFormat), \<lparr>clock = now2, limiter = rl1\<rparr>)
         | OtherException \<Rightarrow> (Inl (Error Rethrown), \<lparr>clock = now2, limiter = rl1\<rparr>)
         | AxiosError status errorMessage \<Rightarrow>
             let finalError =
                   (Inl (Error (if status = Some 401 then AuthenticationFailedAfter attempt
                                else if status = Some 500 then ServerErrorPersistedAfter attempt
                                else ApiErrorFinalAfter attempt errorMessage)),
                    \<lparr>clock = now2, limiter = rl1\<rparr>)
             in if status = Some 429
                then let rl2 = handle429Error now2 rl1;
                         attempt = attempt + 1;
                         (waitTime, rl3) = getTimeUntilNextSlot now2 rl2
                     in (Inl (RetryableError RateLimitHit errorMessage attempt MAX_RETRIES
                                (map_option of_int waitTime)),
                         \<lparr>clock = now2, limiter = rl3\<rparr>)
                else if status = Some 401
                then (if attempt < MAX_RETRIES
                      then let attempt = attempt + 1;
                               backoffMs = calculateBackoff attempt 2000 status (random c)
                           in (Inl (RetryableError AuthError errorMessage attempt MAX_RETRIES
                                      (Some backoffMs)),
                               \<lparr>clock = now2, limiter = rl1\<rparr>)
                      else finalError)
                else if status = Some 500
                then (if attempt < MAX_RETRIES
                      then let attempt = attempt + 1;
                               backoffMs = calculateBackoff attempt 3000 status (random c)
                           in (Inl (RetryableError ServerError errorMessage attempt MAX_RETRIES
                                      (Some backoffMs)),
                               \<lparr>clock = now2, limiter = rl1\<rparr>)
                      else finalError)
                else if isRetryableError status \<and> attempt < MAX_RETRIES
                then let attempt = attempt + 1;
                         backoffMs = calculateBackoff attempt 1000 status (random c)
                     in (Inl (RetryableError ApiError errorMessage attempt MAX_RETRIES (Some backoffMs)),
                         \<lparr>clock = now2, limiter = rl1\<rparr>)
                else finalError)"

text \<open>
  \<open>await new Promise(resolve => setTimeout(resolve, error.nextRetryMs))\<close>: the timer
  takes whole milliseconds.
\<close>

definition sleep :: "rat option \<Rightarrow> world \<Rightarrow> world" where
  "sleep delay w = w\<lparr>clock := clock w + setTimeout_delay (map_option floor delay)\<rparr>"

text \<open>
  The retry loop that \<open>listSalons\<close> and \<open>getSalonDetails\<close> share:
  \<open>while (true) { try { content = await makeRequest(..); return parse(content) }
  catch (error) { if (error instanceof RetryableError) { await sleep; continue } throw error } }\<close>.
  \<open>calls k\<close> is what the environment answers to the \<open>k\<close>-th upstream request of
  this call (counted from 0), \<open>parse\<close> is what the caller does with the text
  (\<open>Inl\<close> when it throws). The loop returns the result together with the number of
  upstream requests made and the final state; \<open>None\<close> is a loop that never ends.
\<close>

partial_function (option) retryLoop ::
  "(string \<Rightarrow> final_message + 'a) \<Rightarrow> (nat \<Rightarrow> call) \<Rightarrow> nat \<Rightarrow> world
     \<Rightarrow> ((final_message + 'a) \<times> nat \<times> world) option" where
  "retryLoop parse calls k w =
     (case makeRequest (calls k) w of
        (Inr content, w') \<Rightarrow> Some (parse content, Suc k, w')
      | (Inl (Error m), w') \<Rightarrow> Some (Inl m, Suc k, w')
      | (Inl (RetryableError kind msg attempt maxAttempts nextRetryMs), w') \<Rightarrow>
          retryLoop parse calls (Suc k) (sleep nextRetryMs w'))"

section \<open>The governor in use\<close>

text \<open>
  What the program does with the rate limiter singleton: \<open>makeRequest\<close>, called by
  the retry loops of \<open>listSalons\<close> and \<open>getSalonDetails\<close>, which goes through
  \<open>waitForSlot\<close> before the upstream call and through \<open>recordRequest\<close> or
  \<open>handle429Error\<close> and \<open>getTimeUntilNextSlot\<close> after it; and
  \<open>getRemainingRequests\<close>, called by the route of the salon details before it asks
  the client. \<open>handleServerError\<close>, \<open>canMakeRequest\<close> and \<open>reset\<close> have no
  caller. Between two of these calls time passes (the \<open>sleep\<close> of a retry loop, the
  time until the next request comes in): \<open>Elapse d\<close>, with \<open>d\<close> in milliseconds.
  The operations are taken one after the other; requests that overlap in time are not
  modelled.
\<close>

datatype operation = MakeRequest call | GetRemainingRequests | Elapse nat

fun perform :: "operation \<Rightarrow> world \<Rightarrow> world" where
  "perform (MakeRequest c) w = snd (makeRequest c w)"
| "perform GetRemainingRequests w =
     w\<lparr>limiter := snd (getRemainingRequests (clock w) (limiter w))\<rparr>"
| "perform (Elapse d) w = w\<lparr>clock := clock w + int d\<rparr>"

fun performAll :: "operation list \<Rightarrow> world \<Rightarrow> world" where
  "performAll [] w = w"
| "performAll (op # ops) w = performAll ops (perform op w)"

text \<open>An upstream call takes no negative time.\<close>

fun timely :: "operation \<Rightarrow> bool" where
  "timely (MakeRequest c) = (0 \<le> latency c)"
| "timely GetRemainingRequests = True"
| "timely (Elapse d) = True"

text \<open>
  The invariant of the governor's states: the backoff ends at most five minutes (the
  longest backoff \<open>handle429Error\<close> sets) after the clock reading.
\<close>

definition withinReach :: "world \<Rightarrow> bool" where
  "withinReach w = (backoffUntil (limiter w) \<le> clock w + 300000)"

section \<open>The extraction cascade (parseJsonResponse)\<close>

text \<open>\<open>indexOf\<close>, \<open>lastIndexOf\<close> and \<open>substring\<close>; \<open>None\<close> is \<open>-1\<close>.\<close>

fun indexOfFrom :: "nat \<Rightarrow> string \<Rightarrow> string \<Rightarrow> nat option" where
  "indexOfFrom i [] pat = (if pat = [] then Some i else None)"
| "indexOfFrom i (c # cs) pat = (if startsWith (c # cs) pat then Some i else indexOfFrom (Suc i) cs pat)"

definition indexOf :: "string \<Rightarrow> string \<Rightarrow> nat option" where
  "indexOf s pat = indexOfFrom 0 s pat"

fun lastIndexOfFrom :: "nat \<Rightarrow> string \<Rightarrow> string \<Rightarrow> nat option" where
  "lastIndexOfFrom i [] pat = (if pat = [] then Some i else None)"
| "lastIndexOfFrom i (c # cs) pat =
     (case lastIndexOfFrom (Suc i) cs pat of
        Some j \<Rightarrow> Some j
      | None \<Rightarrow> if startsWith (c # cs) pat then Some i else None)"

definition lastIndexOf :: "string \<Rightarrow> string \<Rightarrow> nat option" where
  "lastIndexOf s pat = lastIndexOfFrom 0 s pat"

definition substring :: "nat \<Rightarrow> nat \<Rightarrow> string \<Rightarrow> string" where
  "substring a b s = take (b - a) (drop a s)"

text \<open>
  The regular expressions of the cascade. Two of the line patterns name a character
  beyond Latin-1 in a class (the bullet U+2022, the en dash U+2013); no code unit of the
  model matches it, and the class is written without it.
  \<^item> \<^verbatim>\<open>/```(?:json)?\s*([\s\S]*?)```/\<close>
  \<^item> \<^verbatim>\<open>/\{[^{}]*"name"[^{}]*\}/g\<close>
  \<^item> \<^verbatim>\<open>/\[\s*"[^"]+"/\<close>
  \<^item> \<^verbatim>\<open>/^\d+\.\s+(.+?)(?:\s+(?:in|at|on)\s+.+)?$/\<close>
  \<^item> \<^verbatim>\<open>/^[-*(U+2022)]\s+(.+?)(?:\s+(?:in|at|on)\s+.+)?$/\<close>
  \<^item> \<^verbatim>\<open>/"([^"]+)"/\<close>
  \<^item> \<^verbatim>\<open>/^([A-Z][^,\[\]\{\}]+?)(?:\s*[-(U+2013)]\s*|\s+in\s+|\s+at\s+|,|$)/\<close>
\<close>

definition codeBlockRegex :: "bool \<times> rx" where
  "codeBlockRegex =
     (False, Seqs [Lit (CHR 0x60), Lit (CHR 0x60), Lit (CHR 0x60), Opt (Str ''json''),
       Star (Cls [Spc]), Grp (LazyStar (Cls [Spc, NSpc])), Lit (CHR 0x60), Lit (CHR 0x60),
       Lit (CHR 0x60)])"

definition objectRegex :: "bool \<times> rx" where
  "objectRegex =
     (False, Seqs [Lit (CHR ''{''), Star (NCls [Chr (CHR ''{''), Chr (CHR ''}'')]), Lit (CHR 0x22),
       Str ''name'', Lit (CHR 0x22), Star (NCls [Chr (CHR ''{''), Chr (CHR ''}'')]),
       Lit (CHR ''}'')])"

definition jsonArrayRegex :: "bool \<times> rx" where
  "jsonArrayRegex =
     (False, Seqs [Lit (CHR ''[''), Star (Cls [Spc]), Lit (CHR 0x22), Plus (NCls [Chr (CHR 0x22)]),
       Lit (CHR 0x22)])"

definition linePatterns :: "(bool \<times> rx) list" where
  "linePatterns =
     [(False, Seqs [Bol, Plus (Cls [Dgt]), Lit (CHR ''.''), Plus (Cls [Spc]), Grp (LazyPlus Dot),
        Opt (Seqs [Plus (Cls [Spc]), Alts [Str ''in'', Str ''at'', Str ''on''], Plus (Cls [Spc]),
        Plus Dot]), Eol]),
      (False, Seqs [Bol, Cls [Chr (CHR ''-''), Chr (CHR ''*'')], Plus (Cls [Spc]),
        Grp (LazyPlus Dot), Opt (Seqs [Plus (Cls [Spc]), Alts [Str ''in'', Str ''at'', Str ''on''],
        Plus (Cls [Spc]), Plus Dot]), Eol]),
      (False, Seqs [Lit (CHR 0x22), Grp (Plus (NCls [Chr (CHR 0x22)])), Lit (CHR 0x22)]),
      (False, Seqs [Bol, Grp (Seqs [Cls [Rng (CHR ''A'') (CHR ''Z'')],
        LazyPlus (NCls [Chr (CHR '',''), Chr (CHR ''[''), Chr (CHR '']''), Chr (CHR ''{''),
        Chr (CHR ''}'')])]), Alts [Seqs [Star (Cls [Spc]), Cls [Chr (CHR ''-'')], Star (Cls [Spc])],
        Seqs [Plus (Cls [Spc]), Str ''in'', Plus (Cls [Spc])], Seqs [Plus (Cls [Spc]), Str ''at'',
        Plus (Cls [Spc])], Lit (CHR '',''), Eol]])]"

text \<open>
  \<open>content.matchAll(regex)\<close>, the matched texts in order: the search goes on where
  the last match ended, one code unit further after an empty match.
\<close>

function matchAllFrom :: "bool \<times> rx \<Rightarrow> char option \<Rightarrow> string \<Rightarrow> string list" where
  "matchAllFrom re p s =
     (case ms (fst re) (snd re) (p, s, None) of
        [] \<Rightarrow> (case s of [] \<Rightarrow> [] | c # cs \<Rightarrow> matchAllFrom re (Some c) cs)
      | e # _ \<Rightarrow>
          if length (remaining e) < length s
          then matched ((p, s, None), e) # matchAllFrom re (fst e) (remaining e)
          else matched ((p, s, None), e)
                 # (case s of [] \<Rightarrow> [] | c # cs \<Rightarrow> matchAllFrom re (Some c) cs))"
  by pat_completeness auto
termination
  by (relation "measure (\<lambda>(re, p, s). length s)") auto

declare matchAllFrom.simps [simp del]

definition matchAll :: "bool \<times> rx \<Rightarrow> string \<Rightarrow> string list" where
  "matchAll re s = matchAllFrom re None s"

text \<open>
  Which strategy produced the result; the source says it in its log (\<open>Direct parse
  successful\<close>, \<open>Successfully extracted JSON after thinking tags\<close>, ...).
\<close>

datatype strategy =
    DirectParse
  | AfterThinkingTags
  | MarkdownBlock
  | ObjectScan
  | ObjectSpan
  | ArrayScan
  | LastArray
  | LineByLine
  | Alternate

definition hasThinkingTags :: "string \<Rightarrow> bool" where
  "hasThinkingTags content = (str_includes content ''<think>'' \<or> str_includes content ''</think>'')"

text \<open>Strategy 1: the trimmed text, when it starts with a bracket or a brace.\<close>

definition directParse :: "string \<Rightarrow> json option" where
  "directParse content =
     (let trimmedContent = trim content
      in if startsWith trimmedContent ''['' \<or> startsWith trimmedContent ''{''
         then JSON_parse trimmedContent else None)"

text \<open>Strategy 2: the text after the last closing marker, trimmed, when it is not empty.\<close>

definition afterThinkingTags :: "string \<Rightarrow> json option" where
  "afterThinkingTags content =
     (if hasThinkingTags content then
        (case lastIndexOf content ''</think>'' of
           None \<Rightarrow> None
         | Some thinkEndIndex \<Rightarrow>
             let afterThinking = trim (drop (thinkEndIndex + 8) content)
             in if afterThinking = [] then None else JSON_parse afterThinking)
      else None)"

text \<open>Strategy 3: the contents of the first fenced block.\<close>

definition markdownBlock :: "string \<Rightarrow> json option" where
  "markdownBlock content =
     (case rx_exec (fst codeBlockRegex) (snd codeBlockRegex) [] None content of
        None \<Rightarrow> None
      | Some (skipped, b, e) \<Rightarrow>
          (case group1 (b, e) of
             None \<Rightarrow> None
           | Some g \<Rightarrow> if g = [] then None else JSON_parse (trim g)))"

text \<open>
  Strategy 4 for an object. The scan that balances braces from \<open>startIdx\<close> returns
  the index of the closing brace, \<open>None\<close> when the count never comes back to 0.
\<close>

fun scanBraces :: "nat \<Rightarrow> int \<Rightarrow> string \<Rightarrow> nat option" where
  "scanBraces i braceCount [] = None"
| "scanBraces i braceCount (c # cs) =
     (let n1 = (if c = CHR ''{'' then braceCount + 1 else braceCount)
      in if c = CHR ''}'' then (if n1 - 1 = 0 then Some i else scanBraces (Suc i) (n1 - 1) cs)
         else scanBraces (Suc i) n1 cs)"

definition nameIsTruthy :: "json \<Rightarrow> bool" where
  "nameIsTruthy parsed = (case property parsed ''name'' of None \<Rightarrow> False | Some v \<Rightarrow> truthy v)"

definition considerMatch :: "string \<Rightarrow> json option \<times> nat \<Rightarrow> string \<Rightarrow> json option \<times> nat" where
  "considerMatch content best jsonStr =
     (case indexOf content jsonStr of
        None \<Rightarrow> best
      | Some startIdx \<Rightarrow>
          let endIdx = (case scanBraces startIdx 0 (drop startIdx content) of
                          None \<Rightarrow> startIdx | Some i \<Rightarrow> i);
              completeJson = substring startIdx (endIdx + 1) content
          in case JSON_parse completeJson of
               None \<Rightarrow> best
             | Some parsed \<Rightarrow>
                 if nameIsTruthy parsed \<and> snd best < length completeJson
                 then (Some parsed, length completeJson) else best)"

definition objectScan :: "string \<Rightarrow> json option" where
  "objectScan content = fst (foldl (considerMatch content) (None, 0) (matchAll objectRegex content))"

definition spanParse :: "string \<Rightarrow> string \<Rightarrow> string \<Rightarrow> json option" where
  "spanParse content opening closing =
     (case (indexOf content opening, lastIndexOf content closing) of
        (Some jsonStart, Some jsonEnd) \<Rightarrow>
          if jsonStart < jsonEnd then JSON_parse (substring jsonStart (jsonEnd + 1) content) else None
      | _ \<Rightarrow> None)"

text \<open>
  Strategy 4 for an array. \<open>String(v)\<close> is a run of digits for a string of digits,
  for a whole number from 0 up to \<open>10^21\<close>, and for an array of one such element.
\<close>

fun stringIsDigits :: "json \<Rightarrow> bool" where
  "stringIsDigits (JStr s) = rx_test reDigitsOnly s"
| "stringIsDigits (JNum x) = (0 \<le> x \<and> x = of_int (floor x) \<and> x < 10 ^ 21)"
| "stringIsDigits (JArr [v]) = stringIsDigits v"
| "stringIsDigits v = False"

definition isNameString :: "json \<Rightarrow> bool" where
  "isNameString v =
     (case v of JStr s \<Rightarrow> 1 < length s \<and> (if rx_test reDigitsOnly s then False else True) | _ \<Rightarrow> False)"

definition arrayScan :: "string \<Rightarrow> json option" where
  "arrayScan content =
     (case rx_exec (fst jsonArrayRegex) (snd jsonArrayRegex) [] None content of
        None \<Rightarrow> None
      | Some (skipped, b, e) \<Rightarrow>
          (case indexOf content (matched (b, e)) of
             None \<Rightarrow> None
           | Some startIndex \<Rightarrow>
               (case indexOf (drop startIndex content) '']'' of
                  None \<Rightarrow> None
                | Some k \<Rightarrow>
                    (case JSON_parse (substring startIndex (startIndex + k + 1) content) of
                       Some (JArr vs) \<Rightarrow>
                         if 0 < length vs \<and> list_all isNameString vs then Some (JArr vs) else None
                     | _ \<Rightarrow> None))))"

definition lastArray :: "string \<Rightarrow> json option" where
  "lastArray content =
     (case (lastIndexOf content ''['', lastIndexOf content '']'') of
        (Some lastArrayStart, Some lastArrayEnd) \<Rightarrow>
          if lastArrayStart < lastArrayEnd then
            (case JSON_parse (substring lastArrayStart (lastArrayEnd + 1) content) of
               None \<Rightarrow> None
             | Some parsed \<Rightarrow>
                 (case parsed of
                    JArr [v] \<Rightarrow> if stringIsDigits v then None else Some parsed
                  | _ \<Rightarrow> Some parsed))
          else None
      | _ \<Rightarrow> None)"

text \<open>Strategy 5: names line by line.\<close>

definition acceptableName :: "string list \<Rightarrow> string \<Rightarrow> bool" where
  "acceptableName salonSet salonName =
     (2 < length salonName \<and> length salonName < 100
      \<and> (if rx_test reDigitsOnly salonName then False else True)
      \<and> list_all (\<lambda>c. c \<notin> set ''[]{}'') salonName
      \<and> (if str_includes (toLowerCase salonName) ''from'' then False else True)
      \<and> (if startsWith (toLowerCase salonName) ''the user'' then False else True)
      \<and> (if startsWith (toLowerCase salonName) ''okay'' then False else True)
      \<and> salonName \<notin> set salonSet)"

fun firstAcceptable :: "(bool \<times> rx) list \<Rightarrow> string list \<Rightarrow> string \<Rightarrow> string option" where
  "firstAcceptable [] salonSet trimmedLine = None"
| "firstAcceptable (pattern # patterns) salonSet trimmedLine =
     (case rx_exec (fst pattern) (snd pattern) [] None trimmedLine of
        None \<Rightarrow> firstAcceptable patterns salonSet trimmedLine
      | Some (skipped, b, e) \<Rightarrow>
          (case group1 (b, e) of
             None \<Rightarrow> firstAcceptable patterns salonSet trimmedLine
           | Some g \<Rightarrow>
               if g \<noteq> [] \<and> acceptableName salonSet (trim g) then Some (trim g)
               else firstAcceptable patterns salonSet trimmedLine))"

definition extractLine :: "string list \<Rightarrow> string \<Rightarrow> string list" where
  "extractLine found line =
     (let trimmedLine = trim line
      in if trimmedLine = [] \<or> startsWith trimmedLine ''<'' \<or> startsWith trimmedLine ''From [''
         then found
         else (case firstAcceptable linePatterns found trimmedLine of
                 None \<Rightarrow> found
               | Some salonName \<Rightarrow> found @ [salonName]))"

definition lineByLine :: "string \<Rightarrow> json option" where
  "lineByLine content =
     (let found = foldl extractLine [] (splitLines [] content)
      in if found = [] then None else Some (JArr (map JStr found)))"

text \<open>
  \<open>parseJsonResponse\<close>: the strategies in order, the first that yields a value
  wins; \<open>None\<close> is the error of the exhausted cascade.
\<close>

definition orElse :: "'a option \<Rightarrow> 'a option \<Rightarrow> 'a option" where
  "orElse a b = (case a of Some x \<Rightarrow> Some x | None \<Rightarrow> b)"

definition tagged :: "strategy \<Rightarrow> json option \<Rightarrow> (strategy \<times> json) option" where
  "tagged t v = map_option (\<lambda>x. (t, x)) v"

definition parseJsonResponse :: "string \<Rightarrow> bool \<Rightarrow> (strategy \<times> json) option" where
  "parseJsonResponse content isArrayExpected =
     orElse (tagged DirectParse (directParse content))
    (orElse (tagged AfterThinkingTags (afterThinkingTags content))
    (orElse (tagged MarkdownBlock (markdownBlock content))
    (orElse (if isArrayExpected then None
             else orElse (tagged ObjectScan (objectScan content))
                         (tagged ObjectSpan (spanParse content ''{'' ''}'')))
    (orElse (if isArrayExpected
             then orElse (tagged ArrayScan (arrayScan content))
                         (tagged LastArray (lastArray content))
             else None)
    (orElse (if isArrayExpected then tagged LineByLine (lineByLine content) else None)
            (tagged Alternate
               (if isArrayExpected then spanParse content ''{'' ''}''
                else spanParse content ''['' '']'')))))))"

text \<open>
  \<open>PerplexityClient.getSalonDetails\<close>: the retry loop around \<open>makeRequest\<close>,
  with \<open>parseJsonResponse(content, false)\<close> on the text that comes back. (The loop
  of \<open>listSalons\<close> is the same, with more work on the text.)
\<close>

definition client_getSalonDetails ::
  "(nat \<Rightarrow> call) \<Rightarrow> world \<Rightarrow> ((final_message + json) \<times> nat \<times> world) option" where
  "client_getSalonDetails calls w =
     retryLoop (\<lambda>content. case parseJsonResponse content False of
                             None \<Rightarrow> Inl AllStrategiesExhausted
                           | Some (how, parsed) \<Rightarrow> Inr parsed)
               calls 0 w"

section \<open>The canonical record (types/index.ts)\<close>

text \<open>
  The \<open>Salon\<close> interface. An optional field is an \<open>option\<close>; a number is a
  rational (every finite floating-point number is one).
\<close>

record Coordinates =
  latitude :: rat
  longitude :: rat

record Rating =
  stars :: rat
  numberOfReviewers :: rat

record Service =
  item :: string
  price :: rat

text \<open>
  Business hours: an object from day names to an opening and a closing time, as an
  association list in the order of the object's keys.
\<close>

type_synonym BusinessHours = "(string \<times> (string \<times> string)) list"

record Salon =
  name :: string
  address :: "string option"
  coordinates :: "Coordinates option"
  description :: "string option"
  primaryService :: "string option"
  contactNumber :: "string option"
  website :: "string option"
  bookingLink :: "string option"
  rating :: "Rating option"
  services :: "Service list option"
  priceRange :: "string option"
  thumbnails :: "string list option"
  localThumbnails :: "string list option"
  businessHours :: "BusinessHours option"
  serviceCategories :: "string list option"
  fetchError :: "string option"
  phone :: "string option"
  openingHours :: "(string \<times> string) list option"

section \<open>The cache of salon details (serverCache.ts)\<close>

text \<open>The interface \<open>CachedSalonDetails\<close>: what \<open>saveSalonDetails\<close> writes.\<close>

record CachedSalonDetails =
  salon :: Salon
  timestamp :: int
  model :: string
  placeId :: "string option"

text \<open>
  What \<open>getSalonDetails\<close> finds in a file. \<open>Unreadable\<close>: \<open>fs.readFile\<close> throws, or
  \<open>JSON.parse\<close> throws, or the parsed value is \<open>null\<close> (then reading
  \<open>cached.timestamp\<close> throws); in each case the \<open>catch\<close> block is entered.
  \<open>Entry ts sal\<close>: any other parsed value, given by the two properties the function
  reads. \<open>ts\<close> is the number that \<open>cached.timestamp\<close> stands for in
  \<open>Date.now() - cached.timestamp\<close>, a whole number of milliseconds as
  \<open>saveSalonDetails\<close> writes it, and \<open>None\<close> when the subtraction gives \<open>NaN\<close>
  (the property is missing, or is no number). \<open>sal\<close> is \<open>cached.salon\<close>,
  \<open>None\<close> when the property is missing (\<open>undefined\<close>). The properties
  \<open>model\<close> and \<open>placeId\<close> of a file are never read.
\<close>

datatype cache_file = Unreadable | Entry "int option" "Salon option"

text \<open>
  A path is the list of its segments, from the root. The file system is a map from the
  paths of its files to their contents.
\<close>

type_synonym path = "string list"

type_synonym cache_dir = "path \<Rightarrow> cache_file option"

text \<open>
  \<open>path.join\<close> (POSIX): the segments of the joined path in normal form. Empty segments
  and \<open>.\<close> are dropped, \<open>..\<close> drops the segment before it (and nothing at the
  root). The first argument is an absolute path.
\<close>

fun segments :: "string \<Rightarrow> string \<Rightarrow> string list" where
  "segments cur [] = [cur]"
| "segments cur (c # cs) =
     (if c = CHR ''/'' then cur # segments [] cs else segments (cur @ [c]) cs)"

fun normalizeSegments :: "string list \<Rightarrow> string list \<Rightarrow> path" where
  "normalizeSegments up [] = rev up"
| "normalizeSegments up (s # ss) =
     (if s = [] \<or> s = ''.'' then normalizeSegments up ss
      else if s = ''..'' then normalizeSegments (tl up) ss
      else normalizeSegments (s # up) ss)"

definition path_join :: "path \<Rightarrow> string \<Rightarrow> path" where
  "path_join base str = normalizeSegments [] (base @ segments [] str)"

text \<open>
  The cache directories, under the working directory \<open>cwd\<close> of the process
  (\<open>process.cwd()\<close>).
\<close>

definition CACHE_DIR :: "path \<Rightarrow> path" where
  "CACHE_DIR cwd = path_join cwd ''.cache''"

definition SALON_DETAILS_CACHE_DIR :: "path \<Rightarrow> path" where
  "SALON_DETAILS_CACHE_DIR cwd = path_join (CACHE_DIR cwd) ''salon-details''"

definition CACHE_EXPIRY_HOURS :: int where
  "CACHE_EXPIRY_HOURS = 24 * 7"

text \<open>\<open>str.toLowerCase().trim().replace(/[^a-z0-9]/g, '_')\<close>\<close>

definition sanitizeForFilename :: "string \<Rightarrow> string" where
  "sanitizeForFilename str =
     map (\<lambda>c. if c \<in> set ''abcdefghijklmnopqrstuvwxyz0123456789'' then c else CHR ''_'')
         (trim (toLowerCase str))"

text \<open>
  \<open>getSalonDetailsCacheKey\<close>; the model name goes through
  \<open>replace(/[^a-z0-9]/gi, '_')\<close>, which keeps the ASCII letters of both cases and the
  digits.
\<close>

definition getSalonDetailsCacheKey :: "string option \<Rightarrow> string \<Rightarrow> string \<Rightarrow> string" where
  "getSalonDetailsCacheKey pid salonName mdl =
     (let ident = (if truthy_str pid then the pid else sanitizeForFilename salonName);
          modelKey = map (\<lambda>c. if c \<in> set ''abcdefghijklmnopqrstuvwxyzABCDEFGHIJKLMNOPQRSTUVWXYZ0123456789''
                                then c else CHR ''_'') mdl
      in ident @ ''_'' @ modelKey)"

text \<open>
  \<open>isExpired\<close>, on the number the timestamp stands for: with \<open>NaN\<close> the age is
  \<open>NaN\<close> and the comparison is false.
\<close>

definition isExpired :: "int \<Rightarrow> int option \<Rightarrow> bool" where
  "isExpired now ts =
     (case ts of
        None \<Rightarrow> False
      | Some t \<Rightarrow> let age = now - t in age > CACHE_EXPIRY_HOURS * 60 * 60 * 1000)"

text \<open>
  The calls of the file system. A path with the character NUL in it is refused by every
  call. \<open>fs.readFile\<close> followed by \<open>JSON.parse\<close> gives the contents of the file,
  \<open>None\<close> when there is no file at the path. Whether \<open>fs.writeFile\<close> and
  \<open>fs.unlink\<close> do their work is for the file system to say (a missing directory, a
  missing permission): each takes the outcome as its first argument, and a call that
  fails leaves the files as they are.
\<close>

definition validPath :: "path \<Rightarrow> bool" where
  "validPath p = list_all (\<lambda>seg. CHR 0x00 \<notin> set seg) p"

definition readFile :: "cache_dir \<Rightarrow> path \<Rightarrow> cache_file option" where
  "readFile dir p = (if validPath p then dir p else None)"

definition writeFile :: "bool \<Rightarrow> cache_dir \<Rightarrow> path \<Rightarrow> cache_file \<Rightarrow> cache_dir" where
  "writeFile ok dir p contents = (if ok \<and> validPath p then dir(p \<mapsto> contents) else dir)"

definition unlink :: "bool \<Rightarrow> cache_dir \<Rightarrow> path \<Rightarrow> cache_dir" where
  "unlink ok dir p = (if ok \<and> validPath p then dir(p := None) else dir)"

text \<open>
  What \<open>getSalonDetails\<close> returns: \<open>null\<close>, the salon of the entry, or
  \<open>undefined\<close> for an entry without the property \<open>salon\<close>.
\<close>

datatype cached_salon = Null | Undefined | Found Salon

text \<open>
  \<open>ServerCache.saveSalonDetails\<close> and \<open>ServerCache.getSalonDetails\<close>, with the clock
  reading, the outcome of the call that changes the file system, the file system and the
  working directory as their first arguments. The text written is
  \<open>JSON.stringify(cacheData)\<close>, which reads back as the entry with the timestamp and
  the salon of \<open>cacheData\<close>. The failure of \<open>writeFile\<close> is caught, the failure of
  \<open>unlink\<close> is dropped by \<open>.catch(() => {})\<close>. \<open>getSalonDetails\<close> returns its
  result and the file system after the read.
\<close>

definition saveSalonDetails ::
  "int \<Rightarrow> bool \<Rightarrow> cache_dir \<Rightarrow> path \<Rightarrow> Salon \<Rightarrow> string \<Rightarrow> string option \<Rightarrow> cache_dir" where
  "saveSalonDetails now written dir cwd sal mdl pid =
     (let cacheKey = getSalonDetailsCacheKey pid (name sal) mdl;
          filename = cacheKey @ ''.json'';
          filepath = path_join (SALON_DETAILS_CACHE_DIR cwd) filename;
          cacheData = \<lparr>salon = sal, timestamp = now, model = mdl, placeId = pid\<rparr>
      in writeFile written dir filepath (Entry (Some (timestamp cacheData)) (Some (salon cacheData))))"

definition getSalonDetails ::
  "int \<Rightarrow> bool \<Rightarrow> cache_dir \<Rightarrow> path \<Rightarrow> string option \<Rightarrow> string \<Rightarrow> string
     \<Rightarrow> cached_salon \<times> cache_dir" where
  "getSalonDetails now unlinked dir cwd pid salonName mdl =
     (let cacheKey = getSalonDetailsCacheKey pid salonName mdl;
          filename = cacheKey @ ''.json'';
          filepath = path_join (SALON_DETAILS_CACHE_DIR cwd) filename
      in case readFile dir filepath of
           None \<Rightarrow> (Null, dir)
         | Some Unreadable \<Rightarrow> (Null, dir)
         | Some (Entry ts sal) \<Rightarrow>
             if isExpired now ts then (Null, unlink unlinked dir filepath)
             else (case sal of None \<Rightarrow> (Undefined, dir) | Some s \<Rightarrow> (Found s, dir)))"

section \<open>Enrichment from the places service (enrichWithGooglePlaces)\<close>

text \<open>The fields of \<open>config\<close> that the enrichment reads.\<close>

record Config =
  USE_GOOGLE_PLACES :: bool
  GOOGLE_PLACES_API_KEY :: string
  THUMBNAIL_WIDTH :: "int option"
  THUMBNAIL_HEIGHT :: "int option"

text \<open>
  The place record of the details response. \<open>geometry_location\<close> is
  \<open>geometry?.location\<close>, absent when either level is; a period's \<open>day\<close> is
  \<open>None\<close> when it is not a number.
\<close>

record Photo =
  photo_reference :: "string option"

record PeriodPoint =
  day :: "int option"
  time :: "string option"

record Period =
  popen :: "PeriodPoint option"
  pclose :: "PeriodPoint option"

record OpeningHours =
  periods :: "Period list option"

record PlaceData =
  place_name :: "string option"
  formatted_address :: "string option"
  geometry_location :: "(rat option \<times> rat option) option"
  place_rating :: "rat option"
  user_ratings_total :: "rat option"
  photos :: "Photo list option"
  formatted_phone_number :: "string option"
  place_website :: "string option"
  opening_hours :: "OpeningHours option"

definition truthy_num :: "rat option \<Rightarrow> bool" where
  "truthy_num v = (case v of None \<Rightarrow> False | Some x \<Rightarrow> if x = 0 then False else True)"

text \<open>
  \<open>searchPlace\<close>: the two requests to the places service are the environment, a
  function \<open>places\<close> from the query to the place found (\<open>None\<close> for no match and
  for every error, which the source turns into \<open>null\<close>).
\<close>

definition searchPlace :: "Config \<Rightarrow> (string \<Rightarrow> PlaceData option) \<Rightarrow> string \<Rightarrow> PlaceData option" where
  "searchPlace cfg places query = (if USE_GOOGLE_PLACES cfg then places query else None)"

text \<open>
  \<open>time.replace(/(\d{2})(\d{2})/, '$1:$2')\<close>: a colon goes into the middle of the
  first four consecutive digits.
\<close>

fun insertColon :: "string \<Rightarrow> string" where
  "insertColon (a # b # c # d # rest) =
     (if isDigit a \<and> isDigit b \<and> isDigit c \<and> isDigit d then a # b # CHR '':'' # c # d # rest
      else a # insertColon (b # c # d # rest))"
| "insertColon s = s"

definition defaultHours :: BusinessHours where
  "defaultHours =
     [(''monday'', (''closed'', ''closed'')), (''tuesday'', (''closed'', ''closed'')),
      (''wednesday'', (''closed'', ''closed'')), (''thursday'', (''closed'', ''closed'')),
      (''friday'', (''closed'', ''closed'')), (''saturday'', (''closed'', ''closed'')),
      (''sunday'', (''closed'', ''closed''))]"

definition daysOfWeek :: "string list" where
  "daysOfWeek = [''sunday'', ''monday'', ''tuesday'', ''wednesday'', ''thursday'', ''friday'', ''saturday'']"

text \<open>
  One step of the \<open>forEach\<close> over the periods. \<open>daysOfWeek[d]\<close> outside the array
  is \<open>undefined\<close>, and the assignment then writes the key \<open>"undefined"\<close>.
\<close>

definition formatPeriod :: "Period \<Rightarrow> BusinessHours \<Rightarrow> BusinessHours" where
  "formatPeriod period formattedHours =
     (case popen period of
        None \<Rightarrow> formattedHours
      | Some po \<Rightarrow>
          (case day po of
             None \<Rightarrow> formattedHours
           | Some d \<Rightarrow>
               let dayName = (if 0 \<le> d \<and> d < 7 then daysOfWeek ! nat d else ''undefined'');
                   openTime = (if truthy_str (time po) then insertColon (the (time po)) else ''closed'');
                   closeT = (case pclose period of None \<Rightarrow> None | Some pc \<Rightarrow> time pc);
                   closeTime = (if truthy_str closeT then insertColon (the closeT) else ''closed'')
               in AList.update dayName (openTime, closeTime) formattedHours))"

definition formatBusinessHours :: "OpeningHours option \<Rightarrow> BusinessHours" where
  "formatBusinessHours oh =
     (case oh of
        None \<Rightarrow> defaultHours
      | Some h \<Rightarrow>
          (case periods h of
             None \<Rightarrow> defaultHours
           | Some ps \<Rightarrow> foldl (\<lambda>acc period. formatPeriod period acc) defaultHours ps))"

text \<open>Decimal digits of a number, for \<open>maxWidth.toString()\<close>.\<close>

fun digits_of :: "nat \<Rightarrow> nat \<Rightarrow> string" where
  "digits_of 0 n = []"
| "digits_of (Suc fuel) n =
     (if n < 10 then [char_of (48 + n)] else digits_of fuel (n div 10) @ [char_of (48 + n mod 10)])"

definition int_toString :: "int \<Rightarrow> string" where
  "int_toString i = (if i < 0 then CHR ''-'' # digits_of (Suc (nat (- i))) (nat (- i))
                     else digits_of (Suc (nat i)) (nat i))"

text \<open>
  \<open>URLSearchParams.toString()\<close> on one value: letters, digits and \<open>* - . _\<close> stay,
  a space becomes \<open>+\<close>, every other code unit is percent-encoded through UTF-8.
\<close>

definition hexDigit :: "nat \<Rightarrow> char" where
  "hexDigit n = ''0123456789ABCDEF'' ! (n mod 16)"

definition percentByte :: "nat \<Rightarrow> string" where
  "percentByte b = [CHR ''%'', hexDigit (b div 16), hexDigit b]"

definition formEncode_char :: "char \<Rightarrow> string" where
  "formEncode_char c =
     (if c \<in> set ''abcdefghijklmnopqrstuvwxyzABCDEFGHIJKLMNOPQRSTUVWXYZ0123456789*-._'' then [c]
      else if c = CHR '' '' then ''+''
      else let n = (of_char c :: nat)
           in if n < 128 then percentByte n
              else percentByte (192 + n div 64) @ percentByte (128 + n mod 64))"

definition formEncode :: "string \<Rightarrow> string" where
  "formEncode s = concat (map formEncode_char s)"

definition photoUrl :: "Config \<Rightarrow> string \<Rightarrow> string" where
  "photoUrl cfg ref =
     (let maxWidth = (case THUMBNAIL_WIDTH cfg of None \<Rightarrow> 400 | Some x \<Rightarrow> if x = 0 then 400 else x);
          maxHeight = (case THUMBNAIL_HEIGHT cfg of None \<Rightarrow> 300 | Some x \<Rightarrow> if x = 0 then 300 else x)
      in ''https://maps.googleapis.com/maps/api/place/photo?''
         @ ''maxwidth='' @ formEncode (int_toString maxWidth)
         @ ''&maxheight='' @ formEncode (int_toString maxHeight)
         @ ''&photoreference='' @ formEncode ref
         @ ''&key='' @ formEncode (GOOGLE_PLACES_API_KEY cfg))"

text \<open>
  \<open>placeData.photos.slice(0, 3).map(..).filter(url => url !== null)\<close>: a photo
  without a (non-empty) reference gives \<open>null\<close> and is dropped.
\<close>

definition googleThumbnails :: "Config \<Rightarrow> Photo list \<Rightarrow> string list" where
  "googleThumbnails cfg ps =
     map (\<lambda>ph. photoUrl cfg (the (photo_reference ph)))
         (filter (\<lambda>ph. truthy_str (photo_reference ph)) (take 3 ps))"

text \<open>
  The two searches: by name and suburb and, when that finds nothing and the salon has an
  address, by name and address.
\<close>

definition findPlace :: "Config \<Rightarrow> (string \<Rightarrow> PlaceData option) \<Rightarrow> Salon \<Rightarrow> string \<Rightarrow> PlaceData option" where
  "findPlace cfg places sal suburb =
     (case searchPlace cfg places (name sal @ '' salon '' @ suburb) of
        Some pd \<Rightarrow> Some pd
      | None \<Rightarrow>
          if truthy_str (address sal)
          then searchPlace cfg places (name sal @ '' '' @ the (address sal))
          else None)"

definition enrichWithGooglePlaces :: "Config \<Rightarrow> (string \<Rightarrow> PlaceData option) \<Rightarrow> Salon \<Rightarrow> string \<Rightarrow> Salon" where
  "enrichWithGooglePlaces cfg places sal suburb =
     (if USE_GOOGLE_PLACES cfg then
        (case findPlace cfg places sal suburb of
           None \<Rightarrow> sal
         | Some placeData \<Rightarrow>
             sal\<lparr>name := (if truthy_str (place_name placeData) then the (place_name placeData)
                          else name sal),
                 address := (if truthy_str (formatted_address placeData)
                             then formatted_address placeData else address sal),
                 coordinates :=
                   (case geometry_location placeData of
                      None \<Rightarrow> coordinates sal
                    | Some (lat, lng) \<Rightarrow>
                        if truthy_num lat \<and> truthy_num lng
                        then Some \<lparr>latitude = the lat, longitude = the lng\<rparr>
                        else coordinates sal),
                 rating :=
                   (if truthy_num (place_rating placeData)
                    then Some \<lparr>stars = the (place_rating placeData),
                               numberOfReviewers =
                                 (if truthy_num (user_ratings_total placeData)
                                  then the (user_ratings_total placeData) else 0)\<rparr>
                    else rating sal),
                 services := Some (case services sal of None \<Rightarrow> [] | Some x \<Rightarrow> x),
                 priceRange := Some (if truthy_str (priceRange sal) then the (priceRange sal) else ''''),
                 serviceCategories := Some (case serviceCategories sal of None \<Rightarrow> [] | Some x \<Rightarrow> x),
                 thumbnails :=
                   (case photos placeData of
                      None \<Rightarrow> Some (case thumbnails sal of None \<Rightarrow> [] | Some x \<Rightarrow> x)
                    | Some ps \<Rightarrow>
                        if 0 < length ps \<and> truthy_str (Some (GOOGLE_PLACES_API_KEY cfg))
                        then Some (googleThumbnails cfg ps)
                        else Some (case thumbnails sal of None \<Rightarrow> [] | Some x \<Rightarrow> x)),
                 contactNumber := (if truthy_str (formatted_phone_number placeData)
                                   then formatted_phone_number placeData else contactNumber sal),
                 website := (if truthy_str (place_website placeData)
                             then place_website placeData else website sal),
                 businessHours := (case opening_hours placeData of
                                     None \<Rightarrow> businessHours sal
                                   | Some oh \<Rightarrow> Some (formatBusinessHours (Some oh)))\<rparr>)
      else sal)"

section \<open>Concrete inputs\<close>

definition exampleSalon :: Salon where
  "exampleSalon =
     \<lparr>name = ''Glow Girl'', address = Some ''1 King St'', coordinates = None, description = None,
      primaryService = None, contactNumber = Some ''02 1111 1111'',
      website = Some ''https://glow.example'', bookingLink = None,
      rating = Some \<lparr>stars = 4, numberOfReviewers = 10\<rparr>, services = None,
      priceRange = None, thumbnails = Some [''https://cdn.example/a.jpg''], localThumbnails = None,
      businessHours = None, serviceCategories = None, fetchError = None, phone = None,
      openingHours = None\<rparr>"

definition exampleConfig :: Config where
  "exampleConfig =
     \<lparr>USE_GOOGLE_PLACES = True, GOOGLE_PLACES_API_KEY = ''K1'',
      THUMBNAIL_WIDTH = Some 400, THUMBNAIL_HEIGHT = Some 300\<rparr>"

definition examplePlace :: PlaceData where
  "examplePlace =
     \<lparr>place_name = None, formatted_address = None, geometry_location = None,
      place_rating = Some (9 / 2), user_ratings_total = Some 120,
      photos = Some [\<lparr>photo_reference = Some ''ref A''\<rparr>, \<lparr>photo_reference = Some ''refB''\<rparr>],
      formatted_phone_number = Some ''02 2222 2222'',
      place_website = Some ''https://maps.example/glow'', opening_hours = None\<rparr>"

text \<open>A place whose only photo carries no reference.\<close>

definition placeWithBarePhoto :: PlaceData where
  "placeWithBarePhoto = examplePlace\<lparr>photos := Some [\<lparr>photo_reference = None\<rparr>]\<rparr>"

definition placeWithoutPhotos :: PlaceData where
  "placeWithoutPhotos = examplePlace\<lparr>photos := None\<rparr>"

text \<open>
  A file system with one cached entry, written at time 1000 under the working directory
  \<open>/srv/app\<close>.
\<close>

definition exampleCwd :: path where
  "exampleCwd = [''srv'', ''app'']"

definition exampleDir :: cache_dir where
  "exampleDir =
     Map.empty([''srv'', ''app'', ''.cache'', ''salon-details'', ''glow_girl_sonar_pro.json'']
       \<mapsto> Entry (Some 1000) (Some exampleSalon))"

text \<open>
  Name lists: three spellings of one name with a line of meta text.
\<close>

definition threeSpellings :: "string list" where
  "threeSpellings =
     [''Hair Studio '', ''HAIR STUDIO'', '' Hair Studio'', ''This gives me a total of 3'']"

text \<open>
  An upstream that fails six times with the given status and then answers; a governor
  started at time 1000 with the fresh limiter.
\<close>

definition sixFailures :: "nat option \<Rightarrow> nat \<Rightarrow> call" where
  "sixFailures status k =
     \<lparr>outcome = (if k < 6 then AxiosError status ''busy'' else Response (Some ''{}'')),
      latency = 0, random = 0\<rparr>"

definition startWorld :: world where
  "startWorld = \<lparr>clock = 1000, limiter = perplexityRateLimiter\<rparr>"

text \<open>
  Two upstream calls of 40 milliseconds: one answered with status 429, one with a
  completion.
\<close>

definition rateLimited :: call where
  "rateLimited = \<lparr>outcome = AxiosError (Some 429) ''busy'', latency = 40, random = 0\<rparr>"

definition answered :: call where
  "answered = \<lparr>outcome = Response (Some ''[]''), latency = 40, random = 0\<rparr>"

text \<open>
  Response texts. The first is the end-to-end scenario of the specification,
  \<^verbatim>\<open><think>reasoning...</think>\n["Bella Hair", "1"]\<close>, in its three parts. The second
  is \<^verbatim>\<open><think>{"name":"z"}</think>{"k":"</think>"}\<close>: a reasoning segment followed by
  the JSON \<^verbatim>\<open>{"k":"</think>"}\<close>, which holds the closing marker in a string.
\<close>

definition scenarioReasoning :: string where
  "scenarioReasoning = ''<think>reasoning...''"

definition scenarioJson :: string where
  "scenarioJson = [CHR 0x0A] @ ''['' @ [CHR 0x22] @ ''Bella Hair'' @ [CHR 0x22] @ '', '' @ [CHR 0x22] @ ''1'' @ [CHR 0x22] @ '']''"

definition markerInsideJson :: string where
  "markerInsideJson = ''<think>{'' @ [CHR 0x22] @ ''name'' @ [CHR 0x22] @ '':'' @ [CHR 0x22] @ ''z'' @ [CHR 0x22] @ ''}</think>{'' @ [CHR 0x22] @ ''k'' @ [CHR 0x22] @ '':'' @ [CHR 0x22] @ ''</think>'' @ [CHR 0x22] @ ''}''"

definition jsonWithMarker :: string where
  "jsonWithMarker = ''{'' @ [CHR 0x22] @ ''k'' @ [CHR 0x22] @ '':'' @ [CHR 0x22] @ ''</think>'' @ [CHR 0x22] @ ''}''"

section \<open>Properties of the record validator\<close>

subsection \<open>Trimming and the digits pattern\<close>

lemma digit_not_space: "isDigit c \<Longrightarrow> \<not> isWhiteSpace c"
  by (auto simp add: isDigit_def inRange_def isWhiteSpace_def)

lemma dropWhile_keeps: "xs \<noteq> [] \<Longrightarrow> \<not> P (hd xs) \<Longrightarrow> dropWhile P xs = xs"
  by (cases xs) simp_all

lemma trim_no_space_ends:
  assumes "s \<noteq> []" and "\<not> isWhiteSpace (hd s)" and "\<not> isWhiteSpace (last s)"
  shows "trim s = s"
proof -
  have a: "dropWhile isWhiteSpace s = s"
    using assms by (simp add: dropWhile_keeps)
  have "hd (rev s) = last s" using assms(1) by (simp add: hd_rev)
  then have b: "dropWhile isWhiteSpace (rev s) = rev s"
    using assms by (simp add: dropWhile_keeps)
  show ?thesis by (simp add: trim_def a b)
qed

lemma trim_digits:
  assumes "s \<noteq> []" and "list_all isDigit s"
  shows "trim s = s"
proof (rule trim_no_space_ends [OF assms(1)])
  show "\<not> isWhiteSpace (hd s)"
    using assms by (cases s) (auto dest: digit_not_space)
  have "last s \<in> set s" using assms(1) by simp
  then have "isDigit (last s)" using assms(2) by (simp add: list_all_iff)
  then show "\<not> isWhiteSpace (last s)" by (rule digit_not_space)
qed

lemma ms_star_digits:
  "list_all isDigit s \<Longrightarrow> \<exists>p. (p, [], cap) \<in> set (ms False (Star (Cls [Dgt])) (q, s, cap))"
proof (induction s arbitrary: q)
  case Nil
  have "ms False (Cls [Dgt]) (q, [], cap) = []"
    by (simp add: ms.simps(2) step1_def remaining_def)
  then have "ms False (Star (Cls [Dgt])) (q, [], cap) = [(q, [], cap)]"
    by (subst ms.simps(10)) simp
  then show ?case by simp
next
  case (Cons x xs)
  then obtain p where p: "(p, [], cap) \<in> set (ms False (Star (Cls [Dgt])) (Some x, xs, cap))"
    by auto
  have one: "ms False (Cls [Dgt]) (q, x # xs, cap) = [(Some x, xs, cap)]"
    using Cons.prems by (simp add: ms.simps(2) step1_def remaining_def)
  have "ms False (Star (Cls [Dgt])) (q, x # xs, cap)
          = ms False (Star (Cls [Dgt])) (Some x, xs, cap) @ [(q, x # xs, cap)]"
    by (subst ms.simps(10)) (simp add: one remaining_def)
  with p show ?case by auto
qed

lemma digits_only_test:
  assumes "s \<noteq> []" and "list_all isDigit s"
  shows "rx_test reDigitsOnly s"
proof -
  from assms obtain x xs where s: "s = x # xs" by (cases s) auto
  have d: "isDigit x" "list_all isDigit xs" using assms s by auto
  obtain p where p: "(p, [], None) \<in> set (ms False (Star (Cls [Dgt])) (Some x, xs, None))"
    using ms_star_digits [OF d(2)] by blast
  have one: "ms False (Cls [Dgt]) (None, x # xs, None) = [(Some x, xs, None)]"
    using d(1) by (simp add: ms.simps(2) step1_def remaining_def)
  have eol: "ms False Eol (p, [], None) = [(p, [], None)]"
    by (simp add: ms.simps(6) remaining_def)
  have eq: "ms False (Seq Bol (Seq (Seq (Cls [Dgt]) (Star (Cls [Dgt]))) Eol)) (None, x # xs, None)
          = concat (map (ms False Eol) (ms False (Star (Cls [Dgt])) (Some x, xs, None)))"
    by (simp add: ms.simps(5) ms.simps(8) one)
  have "(p, [], None) \<in> set (concat (map (ms False Eol) (ms False (Star (Cls [Dgt])) (Some x, xs, None))))"
    using p eol by force
  then have "(p, [], None) \<in> set (ms False (Seq Bol (Seq (Seq (Cls [Dgt]) (Star (Cls [Dgt]))) Eol)) (None, x # xs, None))"
    by (simp only: eq)
  then have "ms False (Seq Bol (Seq (Seq (Cls [Dgt]) (Star (Cls [Dgt]))) Eol)) (None, x # xs, None) \<noteq> []"
    by (metis empty_iff empty_set)
  then have "rx_exec False (Seq Bol (Seq (Seq (Cls [Dgt]) (Star (Cls [Dgt]))) Eol)) [] None (x # xs) \<noteq> None"
    by (cases "ms False (Seq Bol (Seq (Seq (Cls [Dgt]) (Star (Cls [Dgt]))) Eol)) (None, x # xs, None)") simp_all
  then show ?thesis
    by (auto simp add: rx_test_def reDigitsOnly_def Plus_def s)
qed

text \<open>
  C5, as the code has it. \<open>isValidSalonName\<close> rejects every string whose trimmed
  length is under 2 or over 100, and every non-empty string of digits.
\<close>

theorem name_length_and_digits_rejected:
  "(length (trim nm) < 2 \<or> 100 < length (trim nm) \<longrightarrow> \<not> isValidSalonName nm)
   \<and> (nm \<noteq> [] \<and> list_all isDigit nm \<longrightarrow> \<not> isValidSalonName nm)"
proof -
  have a: "length (trim nm) < 2 \<or> 100 < length (trim nm) \<Longrightarrow> \<not> isValidSalonName nm"
    by (simp add: isValidSalonName_def Let_def)
  have b: "\<not> isValidSalonName nm" if "nm \<noteq> []" "list_all isDigit nm"
  proof -
    have "rx_test reDigitsOnly (trim nm)"
      using that by (simp add: trim_digits digits_only_test)
    then show ?thesis
      by (simp add: isValidSalonName_def Let_def)
  qed
  from a b show ?thesis by blast
qed

theorem name_length_and_digits_rejected_witness:
  "length (trim '' J '') < 2 \<and> \<not> isValidSalonName '' J ''
   \<and> ''2024'' \<noteq> [] \<and> list_all isDigit ''2024'' \<and> \<not> isValidSalonName ''2024''"
proof -
  have a: "length (trim '' J '') < 2"
    by code_simp
  have b: "list_all isDigit ''2024''"
    by code_simp
  show ?thesis
    using a b name_length_and_digits_rejected [of "'' J ''"]
      name_length_and_digits_rejected [of "''2024''"]
    by simp
qed

text \<open>
  C5, as the specification states it, fails at a name of two characters: \<open>JO\<close> has
  trimmed length 2, under 3, and is accepted.
\<close>

theorem two_character_name_counterexample:
  "length (trim ''JO'') = 2 \<and> isValidSalonName ''JO''"
  by code_simp

subsection \<open>cleanSalonName\<close>

text \<open>
  Whenever the name with its annotations stripped is \<open>bella\<close> in any mix of cases,
  \<open>cleanSalonName\<close> returns \<open>Bella Beauty Salon\<close>.
\<close>

lemma bella_becomes_Bella_Beauty_Salon:
  assumes "toLowerCase (stripAnnotations nm) = ''bella''"
  shows "cleanSalonName nm = ''Bella Beauty Salon''"
proof -
  have "trim (replaceAll reWhiteSpaceRun '' '' (replaceFirst reTrailingEllipsis [] ''Bella Beauty Salon''))
          = ''Bella Beauty Salon''"
    by code_simp
  then show ?thesis
    using assms by (simp add: cleanSalonName_def Let_def)
qed

lemma bella_incomplete:
  "toLowerCase (stripAnnotations ''Bella (incomplete)'') = ''bella''
   \<and> cleanSalonName ''Bella (incomplete)'' = ''Bella Beauty Salon''"
proof -
  have "toLowerCase (stripAnnotations ''Bella (incomplete)'') = ''bella''"
    by code_simp
  then show ?thesis
    using bella_becomes_Bella_Beauty_Salon by simp
qed

text \<open>
  C10 at its own example. The annotation of \<open>Bella (incomplete listing)\<close> is not
  stripped (the first pattern wants the word \<open>incomplete\<close> right before the closing
  parenthesis), so the name is not \<open>bella\<close> at the test and comes back unchanged, not
  as \<open>Bella Beauty Salon\<close>.
\<close>

theorem bella_incomplete_listing_unchanged:
  "stripAnnotations ''Bella (incomplete listing)'' = ''Bella (incomplete listing)''
   \<and> cleanSalonName ''Bella (incomplete listing)'' = ''Bella (incomplete listing)''"
  by code_simp

subsection \<open>validateSalonList\<close>

lemma remdups_snoc: "remdups (zs @ [a]) = remdups (filter (\<lambda>x. x \<noteq> a) zs) @ [a]"
  by (induction zs) auto

lemma uniqueInOrder_remdups:
  "uniqueInOrder seen xs = rev (remdups (rev (filter (\<lambda>x. x \<notin> set seen) xs)))"
proof (induction xs arbitrary: seen)
  case Nil
  then show ?case by simp
next
  case (Cons a xs)
  show ?case
  proof (cases "a \<in> set seen")
    case True
    then show ?thesis using Cons.IH [of seen] by simp
  next
    case False
    let ?ys = "filter (\<lambda>x. x \<notin> set seen) xs"
    have f: "filter (\<lambda>x. x \<notin> set (a # seen)) xs = filter (\<lambda>x. x \<noteq> a) ?ys"
      by (induction xs) auto
    have "remdups (rev ?ys @ [a]) = remdups (filter (\<lambda>x. x \<noteq> a) (rev ?ys)) @ [a]"
      by (rule remdups_snoc)
    then have r: "rev (remdups (rev (a # ?ys))) = a # rev (remdups (rev (filter (\<lambda>x. x \<noteq> a) ?ys)))"
      by (simp add: rev_filter)
    have "uniqueInOrder seen (a # xs) = a # uniqueInOrder (a # seen) xs"
      using False by simp
    also have "\<dots> = a # rev (remdups (rev (filter (\<lambda>x. x \<noteq> a) ?ys)))"
      by (simp only: Cons.IH [of "a # seen"] f)
    also have "\<dots> = rev (remdups (rev (a # ?ys)))"
      by (simp only: r)
    also have "a # ?ys = filter (\<lambda>x. x \<notin> set seen) (a # xs)"
      using False by simp
    finally show ?thesis .
  qed
qed

lemma uniqueInOrder_first_occurrences: "uniqueInOrder [] xs = rev (remdups (rev xs))"
  by (simp add: uniqueInOrder_remdups)

lemma trim_prefix: "\<exists>n. rev (dropWhile P (rev u)) = take n u"
proof -
  have "dropWhile P (rev u) = drop (length (takeWhile P (rev u))) (rev u)"
    by (simp add: dropWhile_eq_drop)
  then have "rev (dropWhile P (rev u)) = take (length u - length (takeWhile P (rev u))) u"
    by (simp add: rev_drop)
  then show ?thesis by blast
qed

lemma trim_idem: "trim (trim s) = trim s"
proof (cases "trim s = []")
  case True
  have "trim [] = []" by (simp add: trim_def)
  with True show ?thesis by simp
next
  case False
  let ?u = "dropWhile isWhiteSpace s"
  let ?t = "rev (dropWhile isWhiteSpace (rev ?u))"
  have t: "trim s = ?t" by (simp add: trim_def)
  have ne: "?t \<noteq> []" using False t by simp
  have une: "?u \<noteq> []"
  proof
    assume e: "?u = []"
    have "?t = []" by (simp only: e) simp
    with ne show False by simp
  qed
  have l: "\<not> isWhiteSpace (last ?t)"
  proof -
    have "dropWhile isWhiteSpace (rev ?u) \<noteq> []" using ne by simp
    then have "\<not> isWhiteSpace (hd (dropWhile isWhiteSpace (rev ?u)))"
      by (rule hd_dropWhile)
    moreover have "last ?t = hd (dropWhile isWhiteSpace (rev ?u))"
      using ne by (simp add: last_rev)
    ultimately show ?thesis by simp
  qed
  have h: "\<not> isWhiteSpace (hd ?t)"
  proof -
    obtain n where n: "?t = take n ?u" using trim_prefix by blast
    then have "n \<noteq> 0" using ne by auto
    then have "hd ?t = hd ?u" using n by (cases n) (simp_all add: hd_take)
    moreover have "\<not> isWhiteSpace (hd ?u)" using une by (rule hd_dropWhile)
    ultimately show ?thesis by simp
  qed
  show ?thesis
    using trim_no_space_ends [OF ne h l] t by simp
qed

lemma cleanSalonName_trimmed: "trim (cleanSalonName s) = cleanSalonName s"
  by (simp add: cleanSalonName_def Let_def trim_idem)

lemma processItem_string:
  "\<exists>iss. processItem (JStr s) acc
     = Inr (fst acc @ filter isValidSalonName (map cleanSalonName
              (filter (\<lambda>item. \<not> isMetaText item \<and> \<not> rx_test reNotInTargetArea item) [s])), iss)"
  by (simp add: processItem_def Let_def)

lemma processItems_strings:
  "\<exists>iss. processItems (map JStr ns) acc
     = Inr (fst acc @ filter isValidSalonName (map cleanSalonName
              (filter (\<lambda>item. \<not> isMetaText item \<and> \<not> rx_test reNotInTargetArea item) ns)), iss)"
proof (induction ns arbitrary: acc)
  case Nil
  show ?case by (cases acc) simp
next
  case (Cons n ns)
  let ?ok = "\<lambda>item. \<not> isMetaText item \<and> \<not> rx_test reNotInTargetArea item"
  obtain iss1 where a: "processItem (JStr n) acc
     = Inr (fst acc @ filter isValidSalonName (map cleanSalonName (filter ?ok [n])), iss1)"
    using processItem_string by blast
  obtain iss2 where b: "processItems (map JStr ns)
        (fst acc @ filter isValidSalonName (map cleanSalonName (filter ?ok [n])), iss1)
     = Inr (fst (fst acc @ filter isValidSalonName (map cleanSalonName (filter ?ok [n])), iss1)
             @ filter isValidSalonName (map cleanSalonName (filter ?ok ns)), iss2)"
    using Cons.IH by blast
  have "processItems (map JStr (n # ns)) acc
     = Inr (fst acc @ filter isValidSalonName (map cleanSalonName (filter ?ok (n # ns))), iss2)"
    using a b by simp
  then show ?case by blast
qed

text \<open>
  C4, as the code has it. Validating a list of name strings never fails. The items that
  are meta text or that say they are outside the target area are skipped; the other
  items are cleaned, and the cleaned names that pass \<open>isValidSalonName\<close> are kept in
  their order. The validated names are these kept names with every repetition of an
  earlier, identical string removed: strings are compared exactly, the case of the
  letters included, and the first occurrence keeps its place. So no string occurs
  twice; and since every validated name is trimmed, no two validated names differ only
  by the white space around them.
\<close>

theorem validated_names_distinct_and_trimmed:
  "\<exists>v. validateSalonList (JArr (map JStr names)) = Inr v
     \<and> cleaned v = rev (remdups (rev (filter isValidSalonName (map cleanSalonName
                       (filter (\<lambda>item. \<not> isMetaText item \<and> \<not> rx_test reNotInTargetArea item) names)))))
     \<and> distinct (cleaned v)
     \<and> list_all (\<lambda>x. trim x = x) (cleaned v)
     \<and> (\<forall>x \<in> set (cleaned v). \<forall>y \<in> set (cleaned v). trim x = trim y \<longrightarrow> x = y)"
proof -
  let ?kept = "filter isValidSalonName (map cleanSalonName
                 (filter (\<lambda>item. \<not> isMetaText item \<and> \<not> rx_test reNotInTargetArea item) names))"
  obtain iss where p: "processItems (map JStr names) ([], []) = Inr (?kept, iss)"
    using processItems_strings [of names "([], [])"] by auto
  let ?v = "finishValidation (?kept, iss)"
  have v: "validateSalonList (JArr (map JStr names)) = Inr ?v"
    by (simp add: validateSalonList_def p)
  have c: "cleaned ?v = rev (remdups (rev ?kept))"
    by (simp add: finishValidation_def Let_def uniqueInOrder_first_occurrences)
  have d: "distinct (cleaned ?v)"
    by (simp only: c distinct_rev distinct_remdups)
  have s: "set (cleaned ?v) \<subseteq> range cleanSalonName"
    by (auto simp add: c)
  have t: "trim x = x" if "x \<in> set (cleaned ?v)" for x
    using that s cleanSalonName_trimmed by auto
  have l: "list_all (\<lambda>x. trim x = x) (cleaned ?v)"
    using t by (simp add: list_all_iff)
  have w: "\<forall>x \<in> set (cleaned ?v). \<forall>y \<in> set (cleaned ?v). trim x = trim y \<longrightarrow> x = y"
    using t by simp
  from v c d l w show ?thesis by blast
qed

theorem validated_names_distinct_and_trimmed_witness:
  "validateSalonList (JArr (map JStr threeSpellings))
     = Inr \<lparr>isValid = True, cleaned = [''Hair Studio'', ''HAIR STUDIO''],
            issues = [SkippedMetaText ''This gives me a total of 3'', RemovedDuplicates 1]\<rparr>
   \<and> ''Hair Studio'' \<in> set [''Hair Studio'', ''HAIR STUDIO'']
   \<and> trim ''Hair Studio'' = ''Hair Studio''"
proof -
  have e: "validateSalonList (JArr (map JStr threeSpellings))
     = Inr \<lparr>isValid = True, cleaned = [''Hair Studio'', ''HAIR STUDIO''],
            issues = [SkippedMetaText ''This gives me a total of 3'', RemovedDuplicates 1]\<rparr>"
    by code_simp
  obtain v where a: "validateSalonList (JArr (map JStr threeSpellings)) = Inr v"
    and l: "list_all (\<lambda>x. trim x = x) (cleaned v)"
    using validated_names_distinct_and_trimmed [of threeSpellings] by blast
  have "v = \<lparr>isValid = True, cleaned = [''Hair Studio'', ''HAIR STUDIO''],
            issues = [SkippedMetaText ''This gives me a total of 3'', RemovedDuplicates 1]\<rparr>"
    using a e by simp
  then have "cleaned v = [''Hair Studio'', ''HAIR STUDIO'']"
    by simp
  then have "trim ''Hair Studio'' = ''Hair Studio''"
    using l by simp
  with e show ?thesis by simp
qed

text \<open>
  C4, as the specification states it, fails twice. \<open>Hair Studio\<close> and
  \<open>HAIR STUDIO\<close> differ by case only and are both in the validated list; and the
  validated form of \<open>Foo Salon.. ..\<close> is \<open>Foo Salon..\<close>, which a second
  validation changes to \<open>Foo Salon\<close>.
\<close>

theorem case_variants_counterexample:
  "validateSalonList (JArr [JStr ''Hair Studio'', JStr ''HAIR STUDIO''])
     = Inr \<lparr>isValid = True, cleaned = [''Hair Studio'', ''HAIR STUDIO''], issues = []\<rparr>
   \<and> toLowerCase ''Hair Studio'' = toLowerCase ''HAIR STUDIO''
   \<and> validateSalonList (JArr [JStr ''Foo Salon.. ..''])
     = Inr \<lparr>isValid = True, cleaned = [''Foo Salon..''], issues = [OnlyOneSalon]\<rparr>
   \<and> validateSalonList (JArr [JStr ''Foo Salon..''])
     = Inr \<lparr>isValid = True, cleaned = [''Foo Salon''], issues = [OnlyOneSalon]\<rparr>"
  by code_simp


section \<open>Properties of the rate limiter\<close>

lemma setTimeout_delay_pos: "1 \<le> setTimeout_delay t"
  by (simp add: setTimeout_delay_def split: option.splits)

lemma waitForSlot_limiter: "backoffUntil (snd (waitForSlot now rl)) = backoffUntil rl"
  by (simp add: waitForSlot_def Let_def)

lemma waitForSlot_clock: "now \<le> fst (waitForSlot now rl)"
  using setTimeout_delay_pos [of "Some (backoffUntil rl - now)"]
  by (auto simp add: waitForSlot_def Let_def intro: order_trans [OF _ setTimeout_delay_pos]
      split: option.splits)

text \<open>
  A backoff that ends at most five minutes from now has ended when \<open>waitForSlot\<close>
  returns: the timer is set to what is left of it.
\<close>

lemma waitForSlot_elapsed:
  assumes "backoffUntil rl \<le> now + 300000"
  shows "backoffUntil rl \<le> fst (waitForSlot now rl)"
proof (cases "now < backoffUntil rl")
  case True
  then have "setTimeout_delay (Some (backoffUntil rl - now)) = backoffUntil rl - now"
    using assms by (simp add: setTimeout_delay_def)
  then show ?thesis using True by (simp add: waitForSlot_def)
next
  case False
  then show ?thesis using waitForSlot_clock [of now rl] by simp
qed

lemma handle429Error_backoff:
  "backoffUntil (handle429Error now rl) \<le> now + 300000
   \<and> now \<le> backoffUntil (handle429Error now rl)"
  by (simp add: handle429Error_def Let_def min_def)

lemma getTimeUntilNextSlot_limiter:
  "backoffUntil (snd (getTimeUntilNextSlot now rl)) = backoffUntil rl"
  by (simp add: getTimeUntilNextSlot_def Let_def split: option.splits)

text \<open>
  What one \<open>makeRequest\<close> does to the clock and to \<open>backoffUntil\<close>: only an answer
  with status 429 assigns it.
\<close>

lemma makeRequest_clock:
  "clock (snd (makeRequest c w)) = fst (waitForSlot (clock w) (limiter w)) + latency c"
  by (simp add: makeRequest_def Let_def split_def split: upstream.splits)

lemma makeRequest_backoffUntil:
  "backoffUntil (limiter (snd (makeRequest c w)))
     = (if (\<exists>msg. outcome c = AxiosError (Some 429) msg)
        then backoffUntil (handle429Error (clock (snd (makeRequest c w)))
                             (snd (waitForSlot (clock w) (limiter w))))
        else backoffUntil (limiter w))"
  by (cases "outcome c")
    (auto simp add: makeRequest_def Let_def split_def recordRequest_def getTimeUntilNextSlot_limiter
      waitForSlot_limiter)

lemma makeRequest_elapsed:
  assumes "0 \<le> latency c" and "withinReach w"
  shows "backoffUntil (limiter w) \<le> clock (snd (makeRequest c w))"
  using assms waitForSlot_elapsed [of "limiter w" "clock w"]
  by (simp add: makeRequest_clock withinReach_def)

lemma makeRequest_monotone:
  assumes "0 \<le> latency c" and "withinReach w"
  shows "backoffUntil (limiter w) \<le> backoffUntil (limiter (snd (makeRequest c w)))"
proof (cases "\<exists>msg. outcome c = AxiosError (Some 429) msg")
  case True
  have "backoffUntil (limiter w) \<le> clock (snd (makeRequest c w))"
    using assms by (rule makeRequest_elapsed)
  also have "\<dots> \<le> backoffUntil (handle429Error (clock (snd (makeRequest c w)))
                        (snd (waitForSlot (clock w) (limiter w))))"
    using handle429Error_backoff by simp
  finally show ?thesis
    using True by (simp only: makeRequest_backoffUntil if_True)
next
  case False
  then show ?thesis by (simp only: makeRequest_backoffUntil if_False)
qed

lemma makeRequest_withinReach:
  assumes "0 \<le> latency c" and "withinReach w"
  shows "withinReach (snd (makeRequest c w))"
proof (cases "\<exists>msg. outcome c = AxiosError (Some 429) msg")
  case True
  then show ?thesis
    using handle429Error_backoff
    by (simp only: withinReach_def makeRequest_backoffUntil if_True)
next
  case False
  have "backoffUntil (limiter w) \<le> clock (snd (makeRequest c w))"
    using assms by (rule makeRequest_elapsed)
  then show ?thesis
    using False by (simp only: withinReach_def makeRequest_backoffUntil if_False)
qed

lemma makeRequest_success_elapsed:
  assumes "0 \<le> latency c" and "withinReach w" and "fst (makeRequest c w) = Inr content"
  shows "backoffUntil (limiter (snd (makeRequest c w))) \<le> clock (snd (makeRequest c w))"
proof -
  have "\<not> (\<exists>msg. outcome c = AxiosError (Some 429) msg)"
    using assms(3)
    by (auto simp add: makeRequest_def Let_def split_def)
  then have "backoffUntil (limiter (snd (makeRequest c w))) = backoffUntil (limiter w)"
    by (simp only: makeRequest_backoffUntil if_False)
  then show ?thesis
    using makeRequest_elapsed [OF assms(1) assms(2)] by simp
qed

lemma perform_withinReach:
  assumes "timely op" and "withinReach w"
  shows "withinReach (perform op w)"
proof (cases op)
  case (MakeRequest c)
  then show ?thesis using assms makeRequest_withinReach by simp
next
  case GetRemainingRequests
  then show ?thesis using assms by (simp add: withinReach_def getRemainingRequests_def Let_def)
next
  case (Elapse d)
  then show ?thesis using assms by (simp add: withinReach_def)
qed

lemma performAll_withinReach:
  assumes "list_all timely ops" and "withinReach w"
  shows "withinReach (performAll ops w)"
  using assms
proof (induction ops arbitrary: w)
  case Nil
  then show ?case by simp
next
  case (Cons op ops)
  then show ?case using perform_withinReach by simp
qed

lemma perform_monotone:
  assumes "timely op" and "withinReach w"
  shows "backoffUntil (limiter w) \<le> backoffUntil (limiter (perform op w))"
proof (cases op)
  case (MakeRequest c)
  then show ?thesis using assms makeRequest_monotone by simp
next
  case GetRemainingRequests
  then show ?thesis by (simp add: getRemainingRequests_def Let_def)
next
  case (Elapse d)
  then show ?thesis by simp
qed

lemma fresh_withinReach: "0 \<le> t0 \<Longrightarrow> withinReach \<lparr>clock = t0, limiter = perplexityRateLimiter\<rparr>"
  by (simp add: withinReach_def perplexityRateLimiter_def newRateLimiter_def)

text \<open>
  C6. The governor starts with the fresh limiter at a clock reading \<open>t0\<close> and goes
  through any sequence \<open>ops\<close> of its operations. Whatever operation \<open>op\<close> comes
  next, a request with any answer of the upstream included, \<open>backoffUntil\<close> after it
  is not below \<open>backoffUntil\<close> before it: a failure moves it forward or leaves it as
  it is. And when the next request \<open>c\<close> succeeds, \<open>backoffUntil\<close> is not after
  the clock reading at which it succeeds: \<open>recordRequest\<close> does not assign it, but
  \<open>waitForSlot\<close> has let it pass before the request was sent.
\<close>

theorem backoffUntil_never_moves_back:
  assumes "0 \<le> t0" and "list_all timely ops" and "timely op" and "0 \<le> latency c"
  shows "backoffUntil (limiter (performAll ops \<lparr>clock = t0, limiter = perplexityRateLimiter\<rparr>))
           \<le> backoffUntil (limiter (perform op
                  (performAll ops \<lparr>clock = t0, limiter = perplexityRateLimiter\<rparr>)))
       \<and> (fst (makeRequest c (performAll ops \<lparr>clock = t0, limiter = perplexityRateLimiter\<rparr>))
            = Inr content
          \<longrightarrow> backoffUntil (limiter (snd (makeRequest c
                   (performAll ops \<lparr>clock = t0, limiter = perplexityRateLimiter\<rparr>))))
                \<le> clock (snd (makeRequest c
                   (performAll ops \<lparr>clock = t0, limiter = perplexityRateLimiter\<rparr>))))"
proof -
  let ?w = "performAll ops \<lparr>clock = t0, limiter = perplexityRateLimiter\<rparr>"
  have r: "withinReach ?w"
    using assms(2) fresh_withinReach [OF assms(1)] by (rule performAll_withinReach)
  have m: "backoffUntil (limiter ?w) \<le> backoffUntil (limiter (perform op ?w))"
    using assms(3) r by (rule perform_monotone)
  have s: "backoffUntil (limiter (snd (makeRequest c ?w))) \<le> clock (snd (makeRequest c ?w))"
    if "fst (makeRequest c ?w) = Inr content"
    using assms(4) r that by (rule makeRequest_success_elapsed)
  from m s show ?thesis by blast
qed

lemma afterRateLimit:
  "performAll [MakeRequest rateLimited, Elapse 500] \<lparr>clock = 1000, limiter = perplexityRateLimiter\<rparr>
     = \<lparr>clock = 1540,
        limiter = \<lparr>requestTimes = [], maxRequests = 50, windowMs = 60000, backoffUntil = 3040,
                   consecutiveErrors = 1\<rparr>\<rparr>"
  by (simp add: makeRequest_def rateLimited_def waitForSlot_def perplexityRateLimiter_def
      newRateLimiter_def handle429Error_def getTimeUntilNextSlot_def Let_def)

lemma rateLimitedAgain:
  "makeRequest rateLimited
     \<lparr>clock = 1540,
      limiter = \<lparr>requestTimes = [], maxRequests = 50, windowMs = 60000, backoffUntil = 3040,
                 consecutiveErrors = 1\<rparr>\<rparr>
   = (Inl (RetryableError RateLimitHit ''busy'' 1 5 (Some 4000)),
      \<lparr>clock = 3080,
       limiter = \<lparr>requestTimes = [], maxRequests = 50, windowMs = 60000, backoffUntil = 7080,
                  consecutiveErrors = 2\<rparr>\<rparr>)"
  by (simp add: makeRequest_def rateLimited_def waitForSlot_def setTimeout_delay_def MAX_RETRIES_def
      handle429Error_def getTimeUntilNextSlot_def Let_def)

lemma answeredAfterRateLimit:
  "makeRequest answered
     \<lparr>clock = 1540,
      limiter = \<lparr>requestTimes = [], maxRequests = 50, windowMs = 60000, backoffUntil = 3040,
                 consecutiveErrors = 1\<rparr>\<rparr>
   = (Inr ''[]'',
      \<lparr>clock = 3080,
       limiter = \<lparr>requestTimes = [3080], maxRequests = 50, windowMs = 60000, backoffUntil = 3040,
                  consecutiveErrors = 0\<rparr>\<rparr>)"
  by (simp add: makeRequest_def answered_def waitForSlot_def setTimeout_delay_def MAX_RETRIES_def
      recordRequest_def truthy_str_def Let_def)

theorem backoffUntil_never_moves_back_witness:
  "(0::int) \<le> 1000 \<and> list_all timely [MakeRequest rateLimited, Elapse 500]
   \<and> timely (MakeRequest rateLimited) \<and> 0 \<le> latency answered
   \<and> backoffUntil (limiter (performAll [MakeRequest rateLimited, Elapse 500]
        \<lparr>clock = 1000, limiter = perplexityRateLimiter\<rparr>)) = 3040
   \<and> backoffUntil (limiter (perform (MakeRequest rateLimited)
        (performAll [MakeRequest rateLimited, Elapse 500]
           \<lparr>clock = 1000, limiter = perplexityRateLimiter\<rparr>))) = 7080
   \<and> makeRequest answered (performAll [MakeRequest rateLimited, Elapse 500]
        \<lparr>clock = 1000, limiter = perplexityRateLimiter\<rparr>)
       = (Inr ''[]'',
          \<lparr>clock = 3080,
           limiter = \<lparr>requestTimes = [3080], maxRequests = 50, windowMs = 60000,
                      backoffUntil = 3040, consecutiveErrors = 0\<rparr>\<rparr>)"
  using backoffUntil_never_moves_back [of 1000 "[MakeRequest rateLimited, Elapse 500]"
      "MakeRequest rateLimited" answered "''[]''"]
  by (simp only: afterRateLimit rateLimitedAgain answeredAfterRateLimit perform.simps)
    (simp add: rateLimited_def answered_def)

text \<open>
  The invariant belongs to the program, not to the class: its methods called in another
  order can move \<open>backoffUntil\<close> back. \<open>handleServerError\<close>, which the program never
  calls, followed by \<open>handle429Error\<close> at the same instant moves it from 8000 back to
  4000.
\<close>

lemma handlers_out_of_order:
  "backoffUntil (handleServerError 0 401 perplexityRateLimiter) = 8000
   \<and> backoffUntil (handle429Error 0 (handleServerError 0 401 perplexityRateLimiter)) = 4000"
  by (simp add: handleServerError_def handle429Error_def perplexityRateLimiter_def newRateLimiter_def)

section \<open>Properties of the request governor\<close>

text \<open>
  Whatever retryable status the upstream answers with, one \<open>makeRequest\<close> throws a
  \<open>RetryableError\<close> that announces attempt 1 of 5: the counter starts again at 0 in
  every call, so the guard \<open>attempt < MAX_RETRIES\<close> never fails and the final error
  of the exhausted ceiling is never raised for these statuses.
\<close>

lemma makeRequest_always_retryable:
  assumes "outcome c = AxiosError status msg" and "isRetryableError status"
  shows "\<exists>kind wait. fst (makeRequest c w) = Inl (RetryableError kind msg 1 5 wait)"
  using assms
  by (auto simp add: makeRequest_def Let_def MAX_RETRIES_def split: prod.splits)

text \<open>
  A retry loop that returns has met an upstream answer other than a retryable failure;
  so with an upstream that answers every request with status 401,
  \<open>getSalonDetails\<close> never returns.
\<close>

lemma retryLoop_never_returns:
  assumes "retryLoop parse calls k w = Some y"
  shows "\<exists>j. \<forall>status msg. outcome (calls j) = AxiosError status msg \<longrightarrow> \<not> isRetryableError status"
proof (rule retryLoop.raw_induct
    [where P = "\<lambda>parse calls k w y. \<exists>j. \<forall>status msg. outcome (calls j) = AxiosError status msg
                    \<longrightarrow> \<not> isRetryableError status"
      and parse = parse and calls = calls and k = k and w = w and y = y], goal_cases)
  case (1 loop parse calls k w y)
  note IH = 1(1) and body = 1(2)
  show ?case
  proof (rule ccontr)
    assume neg: "\<not> ?thesis"
    then obtain status msg where o: "outcome (calls k) = AxiosError status msg" and r: "isRetryableError status"
      by blast
    obtain kind wait where "fst (makeRequest (calls k) w) = Inl (RetryableError kind msg 1 5 wait)"
      using makeRequest_always_retryable [OF o r] by blast
    then obtain w' where m: "makeRequest (calls k) w = (Inl (RetryableError kind msg 1 5 wait), w')"
      by (cases "makeRequest (calls k) w") auto
    have "loop parse calls (Suc k) (sleep wait w') = Some y"
      using body by (simp add: m)
    then have "\<exists>j. \<forall>status msg. outcome (calls j) = AxiosError status msg \<longrightarrow> \<not> isRetryableError status"
      by (rule IH)
    with neg show False by blast
  qed
next
  case 2
  show ?case by (rule assms)
qed

lemma always_failing_upstream_never_ends:
  "client_getSalonDetails (\<lambda>k. \<lparr>outcome = AxiosError (Some 401) msg, latency = 0, random = 0\<rparr>) w = None"
proof (cases "client_getSalonDetails (\<lambda>k. \<lparr>outcome = AxiosError (Some 401) msg, latency = 0, random = 0\<rparr>) w")
  case None
  then show ?thesis .
next
  case (Some y)
  then show ?thesis
    using retryLoop_never_returns [OF Some [unfolded client_getSalonDetails_def]]
    by (simp add: isRetryableError_def)
qed

text \<open>
  C3 at a concrete input. The upstream answers six times with status 401 (respectively
  429), then with the completion \<open>{}\<close>. \<open>getSalonDetails\<close> sends seven upstream
  requests and returns the parsed completion: the ceiling of five attempts is not enforced.
\<close>

theorem seven_upstream_attempts:
  "map_option (\<lambda>(r, n, w). (r, n)) (client_getSalonDetails (sixFailures (Some 401)) startWorld)
     = Some (Inr (JObj []), 7)
   \<and> map_option (\<lambda>(r, n, w). (r, n)) (client_getSalonDetails (sixFailures (Some 429)) startWorld)
     = Some (Inr (JObj []), 7)"
proof -
  have p: "parseJsonResponse ''{}'' False = Some (DirectParse, JObj [])"
    by code_simp
  show ?thesis
    unfolding client_getSalonDetails_def
    by (simp add: retryLoop.simps makeRequest_def sixFailures_def startWorld_def waitForSlot_def
        perplexityRateLimiter_def newRateLimiter_def MAX_RETRIES_def calculateBackoff_def sleep_def
        setTimeout_delay_def truthy_str_def recordRequest_def Let_def handle429Error_def
        getTimeUntilNextSlot_def p)
qed



lemma statusless_beyond_guard: "calculateBackoff 7 1000 None 0 = 128000"
  by (simp add: calculateBackoff_def)



section \<open>Properties of the cache\<close>

lemma exampleKey: "getSalonDetailsCacheKey None '' Glow Girl '' ''sonar-pro'' = ''glow_girl_sonar_pro''"
  by code_simp

lemma examplePath:
  "path_join (SALON_DETAILS_CACHE_DIR exampleCwd)
     (getSalonDetailsCacheKey None '' Glow Girl '' ''sonar-pro'' @ ''.json'')
   = [''srv'', ''app'', ''.cache'', ''salon-details'', ''glow_girl_sonar_pro.json'']"
  by code_simp

text \<open>
  C7. The file of a cache key holds an entry with a write timestamp \<open>ts\<close> and a
  salon. A read at a time more than one week (\<open>7 * 24 * 60 * 60 * 1000\<close> ms) after
  \<open>ts\<close> returns \<open>null\<close> and unlinks the file: where the file system carries the
  \<open>unlink\<close> out, the file is gone after the read; where it refuses, the refusal is
  dropped and the file stays, the read still returning \<open>null\<close>. A read at most one
  week after \<open>ts\<close> returns the stored salon and leaves the file system as it was.
\<close>

theorem expired_entry_evicted_on_read:
  assumes "readFile dir (path_join (SALON_DETAILS_CACHE_DIR cwd)
                          (getSalonDetailsCacheKey pid salonName mdl @ ''.json''))
             = Some (Entry (Some ts) (Some sal))"
  shows "(7 * 24 * 60 * 60 * 1000 < now - ts \<longrightarrow>
            getSalonDetails now unlinked dir cwd pid salonName mdl
              = (Null,
                 if unlinked
                 then dir(path_join (SALON_DETAILS_CACHE_DIR cwd)
                            (getSalonDetailsCacheKey pid salonName mdl @ ''.json'') := None)
                 else dir))
       \<and> (now - ts \<le> 7 * 24 * 60 * 60 * 1000 \<longrightarrow>
            getSalonDetails now unlinked dir cwd pid salonName mdl = (Found sal, dir))"
proof -
  let ?p = "path_join (SALON_DETAILS_CACHE_DIR cwd) (getSalonDetailsCacheKey pid salonName mdl @ ''.json'')"
  have v: "validPath ?p"
    using assms by (simp add: readFile_def split: if_splits)
  show ?thesis
    using assms v
    by (simp add: getSalonDetails_def Let_def isExpired_def CACHE_EXPIRY_HOURS_def unlink_def)
qed

theorem expired_entry_evicted_on_read_witness:
  "readFile exampleDir (path_join (SALON_DETAILS_CACHE_DIR exampleCwd)
       (getSalonDetailsCacheKey None '' Glow Girl '' ''sonar-pro'' @ ''.json''))
     = Some (Entry (Some 1000) (Some exampleSalon))
   \<and> fst (getSalonDetails 604801001 True exampleDir exampleCwd None '' Glow Girl '' ''sonar-pro'') = Null
   \<and> snd (getSalonDetails 604801001 True exampleDir exampleCwd None '' Glow Girl '' ''sonar-pro'')
         [''srv'', ''app'', ''.cache'', ''salon-details'', ''glow_girl_sonar_pro.json''] = None
   \<and> getSalonDetails 604801001 False exampleDir exampleCwd None '' Glow Girl '' ''sonar-pro''
         = (Null, exampleDir)
   \<and> getSalonDetails 604801000 True exampleDir exampleCwd None '' Glow Girl '' ''sonar-pro''
         = (Found exampleSalon, exampleDir)"
proof -
  have h: "readFile exampleDir (path_join (SALON_DETAILS_CACHE_DIR exampleCwd)
       (getSalonDetailsCacheKey None '' Glow Girl '' ''sonar-pro'' @ ''.json''))
     = Some (Entry (Some 1000) (Some exampleSalon))"
    by (simp add: examplePath exampleDir_def readFile_def validPath_def)
  show ?thesis
    using h
      expired_entry_evicted_on_read [where dir = exampleDir and cwd = exampleCwd and pid = None
        and salonName = "'' Glow Girl ''" and mdl = "''sonar-pro''" and now = 604801001
        and unlinked = True, OF h]
      expired_entry_evicted_on_read [where dir = exampleDir and cwd = exampleCwd and pid = None
        and salonName = "'' Glow Girl ''" and mdl = "''sonar-pro''" and now = 604801001
        and unlinked = False, OF h]
      expired_entry_evicted_on_read [where dir = exampleDir and cwd = exampleCwd and pid = None
        and salonName = "'' Glow Girl ''" and mdl = "''sonar-pro''" and now = 604801000
        and unlinked = True, OF h]
    by (simp add: examplePath)
qed

text \<open>
  Outside C7: an entry whose timestamp is missing or is no number never expires, and an
  entry written by \<open>saveSalonDetails\<close> is found again within the week.
\<close>

lemma untimed_entry_never_expires:
  assumes "readFile dir (path_join (SALON_DETAILS_CACHE_DIR cwd)
                          (getSalonDetailsCacheKey pid salonName mdl @ ''.json''))
             = Some (Entry None (Some sal))"
  shows "getSalonDetails now unlinked dir cwd pid salonName mdl = (Found sal, dir)"
  using assms by (simp add: getSalonDetails_def Let_def isExpired_def)

lemma saved_entry_found:
  assumes "validPath (path_join (SALON_DETAILS_CACHE_DIR cwd)
                        (getSalonDetailsCacheKey pid (name sal) mdl @ ''.json''))"
    and "now2 - now1 \<le> 7 * 24 * 60 * 60 * 1000"
  shows "fst (getSalonDetails now2 unlinked (saveSalonDetails now1 True dir cwd sal mdl pid) cwd
                pid (name sal) mdl) = Found sal"
  using assms
  by (simp add: getSalonDetails_def saveSalonDetails_def writeFile_def readFile_def Let_def
      isExpired_def CACHE_EXPIRY_HOURS_def)

section \<open>Properties of the enrichment merge\<close>

lemma findPlace_example:
  "findPlace exampleConfig (\<lambda>q. Some pd) exampleSalon ''Newtown'' = Some pd"
  by (simp add: findPlace_def searchPlace_def exampleConfig_def)

text \<open>
  C1 at a concrete input. The stored record has a rating of 4 from 10 reviewers, a contact
  number and a website; the place found has a rating of 4.5 from 120 reviewers, a phone
  number and a website of its own. The merged record carries the values of the place: the
  fields that were present are overwritten, not kept.
\<close>

theorem enrich_overwrites_present_fields:
  "rating (enrichWithGooglePlaces exampleConfig (\<lambda>q. Some examplePlace) exampleSalon ''Newtown'')
     = Some \<lparr>stars = 9 / 2, numberOfReviewers = 120\<rparr>
   \<and> contactNumber (enrichWithGooglePlaces exampleConfig (\<lambda>q. Some examplePlace) exampleSalon ''Newtown'')
     = Some ''02 2222 2222''
   \<and> website (enrichWithGooglePlaces exampleConfig (\<lambda>q. Some examplePlace) exampleSalon ''Newtown'')
     = Some ''https://maps.example/glow''
   \<and> rating exampleSalon = Some \<lparr>stars = 4, numberOfReviewers = 10\<rparr>
   \<and> contactNumber exampleSalon = Some ''02 1111 1111''
   \<and> website exampleSalon = Some ''https://glow.example''"
  by (simp add: enrichWithGooglePlaces_def findPlace_example)
     (simp add: exampleConfig_def examplePlace_def exampleSalon_def truthy_num_def truthy_str_def)

text \<open>
  C2, as the code has it. With the places integration configured and a place found: when
  the place has a non-empty photo list, the merged thumbnails are the URLs built from
  those of its first three photos that carry a reference, whatever the stored thumbnails
  were; when the place has no photo list or an empty one, the stored thumbnails are kept
  (an absent list becoming the empty list).
\<close>

theorem thumbnails_replaced_by_place_photos:
  assumes "USE_GOOGLE_PLACES cfg"
    and "GOOGLE_PLACES_API_KEY cfg \<noteq> []"
    and "findPlace cfg places sal suburb = Some pd"
  shows "thumbnails (enrichWithGooglePlaces cfg places sal suburb) =
           (case photos pd of
              None \<Rightarrow> Some (case thumbnails sal of None \<Rightarrow> [] | Some x \<Rightarrow> x)
            | Some ps \<Rightarrow>
                (case ps of
                   [] \<Rightarrow> Some (case thumbnails sal of None \<Rightarrow> [] | Some x \<Rightarrow> x)
                 | _ # _ \<Rightarrow> Some (googleThumbnails cfg ps)))"
  using assms
  by (cases "GOOGLE_PLACES_API_KEY cfg")
     (simp_all add: enrichWithGooglePlaces_def truthy_str_def split: option.splits list.splits)

theorem thumbnails_replaced_by_place_photos_witness:
  "USE_GOOGLE_PLACES exampleConfig \<and> GOOGLE_PLACES_API_KEY exampleConfig \<noteq> []
   \<and> findPlace exampleConfig (\<lambda>q. Some examplePlace) exampleSalon ''Newtown'' = Some examplePlace
   \<and> thumbnails (enrichWithGooglePlaces exampleConfig (\<lambda>q. Some examplePlace) exampleSalon ''Newtown'')
       = Some [''https://maps.googleapis.com/maps/api/place/photo?maxwidth=400&maxheight=300&photoreference=ref+A&key=K1'',
               ''https://maps.googleapis.com/maps/api/place/photo?maxwidth=400&maxheight=300&photoreference=refB&key=K1'']
   \<and> thumbnails (enrichWithGooglePlaces exampleConfig (\<lambda>q. Some placeWithoutPhotos) exampleSalon ''Newtown'')
       = Some [''https://cdn.example/a.jpg'']"
proof -
  have u: "USE_GOOGLE_PLACES exampleConfig" and k: "GOOGLE_PLACES_API_KEY exampleConfig \<noteq> []"
    by (simp_all add: exampleConfig_def)
  have g: "googleThumbnails exampleConfig
             [\<lparr>photo_reference = Some ''ref A''\<rparr>, \<lparr>photo_reference = Some ''refB''\<rparr>]
           = [''https://maps.googleapis.com/maps/api/place/photo?maxwidth=400&maxheight=300&photoreference=ref+A&key=K1'',
              ''https://maps.googleapis.com/maps/api/place/photo?maxwidth=400&maxheight=300&photoreference=refB&key=K1'']"
    by code_simp
  have p1: "photos examplePlace
              = Some [\<lparr>photo_reference = Some ''ref A''\<rparr>, \<lparr>photo_reference = Some ''refB''\<rparr>]"
    by (simp add: examplePlace_def)
  have p2: "photos placeWithoutPhotos = None"
    by (simp add: placeWithoutPhotos_def)
  have t: "thumbnails exampleSalon = Some [''https://cdn.example/a.jpg'']"
    by (simp add: exampleSalon_def)
  have a: "thumbnails (enrichWithGooglePlaces exampleConfig (\<lambda>q. Some examplePlace) exampleSalon ''Newtown'')
             = Some (googleThumbnails exampleConfig
                 [\<lparr>photo_reference = Some ''ref A''\<rparr>, \<lparr>photo_reference = Some ''refB''\<rparr>])"
    using thumbnails_replaced_by_place_photos [OF u k findPlace_example [of examplePlace]]
    by (simp add: p1)
  have b: "thumbnails (enrichWithGooglePlaces exampleConfig (\<lambda>q. Some placeWithoutPhotos) exampleSalon ''Newtown'')
             = Some [''https://cdn.example/a.jpg'']"
    using thumbnails_replaced_by_place_photos [OF u k findPlace_example [of placeWithoutPhotos]]
    by (simp add: p2 t)
  show ?thesis
    using u k a b by (simp add: g findPlace_example)
qed

text \<open>
  C2, as the specification states it, fails where the place offers no photo reference but
  a photo list that is not empty: the only photo has no reference, and the stored
  thumbnail is dropped all the same, leaving no thumbnail at all.
\<close>

theorem thumbnails_counterexample:
  "list_all (\<lambda>ph. photo_reference ph = None) (the (photos placeWithBarePhoto))
   \<and> thumbnails exampleSalon = Some [''https://cdn.example/a.jpg'']
   \<and> thumbnails (enrichWithGooglePlaces exampleConfig (\<lambda>q. Some placeWithBarePhoto) exampleSalon ''Newtown'')
       = Some []"
  by (simp add: enrichWithGooglePlaces_def findPlace_example)
     (simp add: exampleConfig_def examplePlace_def placeWithBarePhoto_def exampleSalon_def
        truthy_str_def googleThumbnails_def)

section \<open>Properties of the extraction cascade\<close>

lemma lastIndexOfFrom_includes:
  "lastIndexOfFrom i s pat = Some j \<Longrightarrow> str_includes s pat"
  by (induction s arbitrary: i) (auto split: option.splits if_splits)

lemma lastIndexOfFrom_absent:
  "\<not> str_includes s pat \<Longrightarrow> pat \<noteq> [] \<Longrightarrow> lastIndexOfFrom i s pat = None"
  by (induction s arbitrary: i) auto

lemma lastIndexOfFrom_prefix:
  "lastIndexOfFrom (i + length pre) s pat = Some j \<Longrightarrow> lastIndexOfFrom i (pre @ s) pat = Some j"
  by (induction pre arbitrary: i) auto

lemma lastIndexOf_closing_marker:
  assumes "\<not> str_includes post ''</think>''"
  shows "lastIndexOf (pre @ ''</think>'' @ post) ''</think>'' = Some (length pre)"
proof -
  have "lastIndexOfFrom (k + 8) post ''</think>'' = None" for k
    using assms by (simp add: lastIndexOfFrom_absent)
  then have "lastIndexOfFrom (0 + length pre) (''</think>'' @ post) ''</think>'' = Some (length pre)"
    by (simp add: numeral_eq_Suc)
  then show ?thesis
    unfolding lastIndexOf_def by (rule lastIndexOfFrom_prefix)
qed

lemma JSON_parse_empty: "JSON_parse [] = None"
  by (simp add: JSON_parse_def skipWs_def)

text \<open>The direct parse is not tried on a text that starts with a marker.\<close>

lemma directParse_not_tried:
  "startsWith (trim content) ''<'' \<Longrightarrow> directParse content = None"
  by (cases "trim content") (auto simp add: directParse_def Let_def)

text \<open>
  C9, as the code has it. Let the text end in a closing marker \<open></think>\<close>
  followed by \<open>post\<close>, where \<open>post\<close> holds no further closing marker and,
  trimmed, parses as JSON with value \<open>v\<close>; and let the direct parse of the whole text
  not succeed. Then the cascade returns \<open>v\<close>, by the strategy that strips the
  reasoning wrapper, whichever shape is expected.
\<close>

theorem wrapper_stripping_returns_json:
  assumes "\<not> str_includes post ''</think>''"
    and "JSON_parse (trim post) = Some v"
    and "directParse (pre @ ''</think>'' @ post) = None"
  shows "parseJsonResponse (pre @ ''</think>'' @ post) isArrayExpected = Some (AfterThinkingTags, v)"
proof -
  let ?content = "pre @ ''</think>'' @ post"
  have l: "lastIndexOf ?content ''</think>'' = Some (length pre)"
    using assms(1) by (rule lastIndexOf_closing_marker)
  then have h: "hasThinkingTags ?content"
    unfolding lastIndexOf_def hasThinkingTags_def by (auto dest: lastIndexOfFrom_includes)
  have d: "drop (length pre + 8) ?content = post"
    by simp
  have n: "trim post \<noteq> []"
    using assms(2) JSON_parse_empty by auto
  have "afterThinkingTags ?content = Some v"
    unfolding afterThinkingTags_def using h n assms(2) by (simp only: l d) simp
  then show ?thesis
    using assms(3) by (simp add: parseJsonResponse_def orElse_def tagged_def)
qed

theorem wrapper_stripping_returns_json_witness:
  "\<not> str_includes scenarioJson ''</think>''
   \<and> JSON_parse (trim scenarioJson) = Some (JArr [JStr ''Bella Hair'', JStr ''1''])
   \<and> directParse (scenarioReasoning @ ''</think>'' @ scenarioJson) = None
   \<and> parseJsonResponse (scenarioReasoning @ ''</think>'' @ scenarioJson) True
       = Some (AfterThinkingTags, JArr [JStr ''Bella Hair'', JStr ''1''])"
proof -
  have a: "\<not> str_includes scenarioJson ''</think>''"
    by code_simp
  have b: "JSON_parse (trim scenarioJson) = Some (JArr [JStr ''Bella Hair'', JStr ''1''])"
    by code_simp
  have c: "directParse (scenarioReasoning @ ''</think>'' @ scenarioJson) = None"
    by code_simp
  show ?thesis
    using a b c wrapper_stripping_returns_json [OF a b c] by simp
qed

text \<open>
  C9, as the specification states it, fails when the JSON after the reasoning segment
  holds the closing marker itself: the text after the segment parses as JSON, but the
  cascade splits at the last marker, inside that JSON, and with an object expected it
  returns the object found inside the reasoning instead, by the scan for objects.
\<close>

theorem marker_inside_json_counterexample:
  "markerInsideJson = ''<think>{'' @ [CHR 0x22] @ ''name'' @ [CHR 0x22] @ '':'' @ [CHR 0x22] @ ''z''
                        @ [CHR 0x22] @ ''}</think>'' @ jsonWithMarker
   \<and> JSON_parse jsonWithMarker = Some (JObj [(''k'', JStr ''</think>'')])
   \<and> parseJsonResponse markerInsideJson False = Some (ObjectScan, JObj [(''name'', JStr ''z'')])"
  by code_simp

end
